theory Spec2Isabelle
  imports Main "HOL-Library.AList" "HOL-Library.List_Lexorder"
begin

section \<open>Python strings\<close>

text \<open>
  A Python \<open>str\<close> is a sequence of Unicode code points and \<open>len\<close> counts code points, so
  a string is modelled as a list of code points. \<open>str\<close> turns an ASCII literal into that
  representation.
\<close>

type_synonym pystr = "nat list"

definition str :: "string \<Rightarrow> pystr" where
  "str s = map of_char s"

definition is_lower :: "nat \<Rightarrow> bool" where
  "is_lower c \<longleftrightarrow> 97 \<le> c \<and> c \<le> 122"

definition is_upper :: "nat \<Rightarrow> bool" where
  "is_upper c \<longleftrightarrow> 65 \<le> c \<and> c \<le> 90"

definition is_digit :: "nat \<Rightarrow> bool" where
  "is_digit c \<longleftrightarrow> 48 \<le> c \<and> c \<le> 57"

text \<open>
  The whitespace class shared by \<open>str.strip()\<close> and the pattern \<open>\s\<close> on a \<open>str\<close>:
  the code points for which \<open>str.isspace\<close> holds.
\<close>

definition py_isspace :: "nat \<Rightarrow> bool" where
  "py_isspace c \<longleftrightarrow>
     (9 \<le> c \<and> c \<le> 13) \<or> (28 \<le> c \<and> c \<le> 32) \<or> c = 133 \<or> c = 160 \<or> c = 5760 \<or>
     (8192 \<le> c \<and> c \<le> 8202) \<or> c = 8232 \<or> c = 8233 \<or> c = 8239 \<or> c = 8287 \<or> c = 12288"

definition strip :: "pystr \<Rightarrow> pystr" where
  "strip s = rev (dropWhile py_isspace (rev (dropWhile py_isspace s)))"


section \<open>The filename validator\<close>

text \<open>The character class \<open>[a-zA-Z0-9 ]\<close>.\<close>

definition keep_class :: "nat \<Rightarrow> bool" where
  "keep_class c \<longleftrightarrow> is_lower c \<or> is_upper c \<or> is_digit c \<or> c = 32"

text \<open>\<open>re.sub(r'[^a-zA-Z0-9 ]', ' ', filename)\<close>: every character outside the class
  becomes one space.\<close>

definition sub_nonalnum :: "pystr \<Rightarrow> pystr" where
  "sub_nonalnum s = map (\<lambda>c. if keep_class c then c else 32) s"

text \<open>\<open>re.sub(r'\s+', ' ', s)\<close>: the matches are the maximal runs of whitespace, found
  from left to right, and each is replaced by one space.\<close>

function sub_spaces :: "pystr \<Rightarrow> pystr" where
  "sub_spaces [] = []"
| "sub_spaces (c # cs) =
     (if py_isspace c then 32 # sub_spaces (dropWhile py_isspace cs)
      else c # sub_spaces cs)"
  by pat_completeness auto
termination
  by (relation "measure length") (auto simp: le_imp_less_Suc length_dropWhile_le)

text \<open>\<open>re.sub(r'([a-z])([A-Z])', r'\1 \2', s)\<close>: matches do not overlap; after a match
  the scan resumes behind the upper-case letter.\<close>

fun sub_camel :: "pystr \<Rightarrow> pystr" where
  "sub_camel (a # b # rest) =
     (if is_lower a \<and> is_upper b then a # 32 # b # sub_camel rest
      else a # sub_camel (b # rest))"
| "sub_camel [a] = [a]"
| "sub_camel [] = []"

text \<open>\<open>FileProcessor.clean_filename\<close> of \<open>ai-rename.py\<close>; the empty string is the
  rejection.\<close>

definition clean_filename :: "pystr \<Rightarrow> pystr" where
  "clean_filename filename =
     (let cleaned_content = sub_nonalnum filename;
          cleaned_content = strip (sub_spaces cleaned_content);
          cleaned_content = sub_camel cleaned_content;
          content_length = length cleaned_content
      in if 15 \<le> content_length \<and> content_length \<le> 100 then cleaned_content else [])"

text \<open>\<open>clean_filename\<close> of \<open>ai_rename.py\<close> (the second script of \<open>scan.py\<close> has the
  same text); \<open>None\<close> is the rejection.\<close>

definition draft_clean_filename :: "pystr \<Rightarrow> pystr option" where
  "draft_clean_filename filename =
     (let cleaned_content = sub_nonalnum filename;
          cleaned_content = strip (sub_spaces cleaned_content);
          cleaned_content = sub_camel cleaned_content;
          content_length = length cleaned_content
      in if 15 \<le> content_length \<and> content_length \<le> 100 then Some cleaned_content else None)"


subsection \<open>\<open>os.path.splitext\<close>\<close>

text \<open>\<open>str.rfind\<close> for a single character: the last index, or \<open>-1\<close>.\<close>

definition rfind :: "nat \<Rightarrow> pystr \<Rightarrow> int" where
  "rfind c p =
     (if c \<in> set p then int (length p) - 1 - int (length (takeWhile (\<lambda>x. x \<noteq> c) (rev p)))
      else - 1)"

text \<open>
  The POSIX \<open>os.path.splitext\<close> (\<open>genericpath._splitext\<close> with separator \<open>/\<close> and
  extension separator \<open>.\<close>): the extension starts at the last dot of the last path
  component, unless that component has only dots before it. \<open>splitext_scan\<close> is the
  loop that skips the leading dots.
\<close>

function splitext_scan :: "pystr \<Rightarrow> int \<Rightarrow> int \<Rightarrow> pystr \<times> pystr" where
  "splitext_scan p filenameIndex dotIndex =
     (if filenameIndex < dotIndex then
        (if take 1 (drop (nat filenameIndex) p) \<noteq> [46]
         then (take (nat dotIndex) p, drop (nat dotIndex) p)
         else splitext_scan p (filenameIndex + 1) dotIndex)
      else (p, []))"
  by pat_completeness auto
termination
  by (relation "measure (\<lambda>(p, f, d). nat (d - f))") auto

declare splitext_scan.simps [simp del]

definition splitext :: "pystr \<Rightarrow> pystr \<times> pystr" where
  "splitext p =
     (let sepIndex = rfind 47 p; dotIndex = rfind 46 p
      in if dotIndex > sepIndex then splitext_scan p (sepIndex + 1) dotIndex else (p, []))"

text \<open>\<open>clean_filename\<close> of the first script of \<open>scan.py\<close>: the length is taken before
  \<open>os.path.splitext\<close> is applied.\<close>

definition scan_clean_filename :: "pystr \<Rightarrow> pystr option" where
  "scan_clean_filename filename =
     (let cleaned_content = sub_nonalnum filename;
          cleaned_content = strip (sub_spaces cleaned_content);
          cleaned_content = sub_camel cleaned_content;
          content_length = length cleaned_content;
          cleaned_content = fst (splitext cleaned_content)
      in if 15 \<le> content_length \<and> content_length \<le> 100 then Some cleaned_content else None)"


subsection \<open>Shapes of strings\<close>

definition single_spaced :: "pystr \<Rightarrow> bool" where
  "single_spaced s = successively (\<lambda>a b. \<not> (py_isspace a \<and> py_isspace b)) s"

definition no_hump :: "pystr \<Rightarrow> bool" where
  "no_hump s = successively (\<lambda>a b. \<not> (is_lower a \<and> is_upper b)) s"

definition trimmed :: "pystr \<Rightarrow> bool" where
  "trimmed s \<longleftrightarrow> s = [] \<or> (\<not> py_isspace (hd s) \<and> \<not> py_isspace (last s))"

text \<open>The three substitutions and the trim, before the length check.\<close>

definition normalise :: "pystr \<Rightarrow> pystr" where
  "normalise s = sub_camel (strip (sub_spaces (sub_nonalnum s)))"


section \<open>Properties of the validator\<close>

lemmas char_classes = keep_class_def is_lower_def is_upper_def is_digit_def py_isspace_def

lemmas validator_eval =
  clean_filename_def draft_clean_filename_def scan_clean_filename_def
  str_def sub_nonalnum_def strip_def char_classes

lemma keep_class_space: "keep_class c \<Longrightarrow> py_isspace c \<longleftrightarrow> c = 32"
  by (auto simp: char_classes)

lemma isspace_32: "py_isspace 32"
  by (simp add: py_isspace_def)

lemma keep_class_32: "keep_class 32"
  by (simp add: keep_class_def)

lemma lower_not_space: "is_lower c \<Longrightarrow> \<not> py_isspace c"
  by (auto simp: char_classes)

lemma upper_not_space: "is_upper c \<Longrightarrow> \<not> py_isspace c"
  by (auto simp: char_classes)

lemma upper_not_lower: "is_upper c \<Longrightarrow> \<not> is_lower c"
  by (auto simp: char_classes)

lemma not_upper_32: "\<not> is_upper 32"
  by (simp add: char_classes)

lemma not_lower_32: "\<not> is_lower 32"
  by (simp add: char_classes)

lemma keep_class_not_dot: "keep_class c \<Longrightarrow> c \<noteq> 46"
  by (auto simp: char_classes)

subsection \<open>Step 1\<close>

lemma sub_nonalnum_class: "list_all keep_class (sub_nonalnum s)"
  by (induction s) (simp_all add: sub_nonalnum_def keep_class_32)

lemma sub_nonalnum_id: "list_all keep_class t \<Longrightarrow> sub_nonalnum t = t"
  by (induction t) (simp_all add: sub_nonalnum_def)

subsection \<open>Step 2\<close>

lemma list_all_dropWhile: "list_all P xs \<Longrightarrow> list_all P (dropWhile Q xs)"
  by (induction xs) simp_all

lemma successively_dropWhile: "successively R xs \<Longrightarrow> successively R (dropWhile Q xs)"
  by (induction xs) (auto simp: successively_Cons)

lemma sub_spaces_class: "list_all keep_class s \<Longrightarrow> list_all keep_class (sub_spaces s)"
  by (induction s rule: sub_spaces.induct) (simp_all add: keep_class_32 list_all_dropWhile)

lemma sub_spaces_Nil_iff: "sub_spaces s = [] \<longleftrightarrow> s = []"
  by (cases s) simp_all

lemma sub_spaces_hd: "s \<noteq> [] \<Longrightarrow> py_isspace (hd (sub_spaces s)) \<longleftrightarrow> py_isspace (hd s)"
  by (cases s) (simp_all add: isspace_32)

lemma sub_spaces_single: "single_spaced (sub_spaces s)"
proof (induction s rule: sub_spaces.induct)
  case 1
  show ?case by (simp add: single_spaced_def)
next
  case (2 c cs)
  show ?case
  proof (cases "py_isspace c")
    case True
    let ?r = "dropWhile py_isspace cs"
    have "?r \<noteq> [] \<Longrightarrow> \<not> py_isspace (hd (sub_spaces ?r))"
      using hd_dropWhile [of py_isspace cs] by (simp add: sub_spaces_hd)
    with 2 True show ?thesis
      by (auto simp: single_spaced_def successively_Cons sub_spaces_Nil_iff)
  next
    case False
    with 2 show ?thesis
      by (auto simp: single_spaced_def successively_Cons)
  qed
qed

lemma sub_spaces_id:
  "list_all keep_class t \<Longrightarrow> single_spaced t \<Longrightarrow> sub_spaces t = t"
proof (induction t rule: sub_spaces.induct)
  case 1
  show ?case by simp
next
  case (2 c cs)
  from 2 have rest: "single_spaced cs"
    by (auto simp: single_spaced_def successively_Cons)
  show ?case
  proof (cases "py_isspace c")
    case True
    with 2 have c: "c = 32" by (simp add: keep_class_space)
    from 2 True have "cs = [] \<or> \<not> py_isspace (hd cs)"
      by (auto simp: single_spaced_def successively_Cons)
    then have "dropWhile py_isspace cs = cs" by (cases cs) auto
    with 2 True c rest show ?thesis by simp
  next
    case False
    with 2 rest show ?thesis by simp
  qed
qed

lemma strip_class: "list_all keep_class s \<Longrightarrow> list_all keep_class (strip s)"
  by (simp add: strip_def list_all_dropWhile)

lemma strip_single: "single_spaced s \<Longrightarrow> single_spaced (strip s)"
  unfolding strip_def single_spaced_def
  by (simp add: successively_dropWhile conj_commute)

lemma strip_trimmed: "trimmed (strip s)"
proof -
  let ?a = "dropWhile py_isspace s"
  let ?b = "dropWhile py_isspace (rev ?a)"
  show ?thesis
  proof (cases "?b = []")
    case True
    then show ?thesis by (simp add: trimmed_def strip_def)
  next
    case False
    then have l: "\<not> py_isspace (hd ?b)" by (rule hd_dropWhile)
    from False have "?a \<noteq> []" by (auto dest: set_dropWhileD)
    then have ha: "\<not> py_isspace (hd ?a)" by (rule hd_dropWhile)
    have "rev ?a = takeWhile py_isspace (rev ?a) @ ?b" by simp
    then have "?a = rev ?b @ rev (takeWhile py_isspace (rev ?a))"
      by (metis rev_append rev_rev_ident)
    with False have "hd ?a = hd (rev ?b)" by (metis hd_append2 rev_is_Nil_conv)
    with ha l False show ?thesis
      by (simp add: trimmed_def strip_def last_rev)
  qed
qed

lemma strip_id: "trimmed t \<Longrightarrow> strip t = t"
proof (cases "t = []")
  case True
  then show ?thesis by (simp add: strip_def)
next
  case False
  assume "trimmed t"
  with False have h: "\<not> py_isspace (hd t)" and l: "\<not> py_isspace (last t)"
    by (simp_all add: trimmed_def)
  from h False have a: "dropWhile py_isspace t = t" by (cases t) auto
  from l False have "\<not> py_isspace (hd (rev t))" by (simp add: hd_rev)
  with False have "dropWhile py_isspace (rev t) = rev t" by (cases "rev t") auto
  with a show ?thesis by (simp add: strip_def)
qed

subsection \<open>Step 3\<close>

lemma sub_camel_Nil_iff: "sub_camel s = [] \<longleftrightarrow> s = []"
  by (induction s rule: sub_camel.induct) auto

lemma sub_camel_hd: "hd (sub_camel s) = hd s"
  by (induction s rule: sub_camel.induct) auto

lemma sub_camel_last: "last (sub_camel s) = last s"
  by (induction s rule: sub_camel.induct) (auto simp: sub_camel_Nil_iff)

lemma sub_camel_class: "list_all keep_class s \<Longrightarrow> list_all keep_class (sub_camel s)"
  by (induction s rule: sub_camel.induct) (auto simp: keep_class_32)

lemma sub_camel_trimmed: "trimmed s \<Longrightarrow> trimmed (sub_camel s)"
  by (simp add: trimmed_def sub_camel_Nil_iff sub_camel_hd sub_camel_last)

lemma sub_camel_single: "single_spaced s \<Longrightarrow> single_spaced (sub_camel s)"
  unfolding single_spaced_def
  by (induction s rule: sub_camel.induct)
     (auto simp: successively_Cons sub_camel_Nil_iff sub_camel_hd
           dest: lower_not_space upper_not_space)

lemma sub_camel_no_hump: "no_hump (sub_camel s)"
  unfolding no_hump_def
  by (induction s rule: sub_camel.induct)
     (auto simp: successively_Cons sub_camel_Nil_iff sub_camel_hd not_upper_32 not_lower_32
           dest: upper_not_lower)

lemma sub_camel_id: "no_hump t \<Longrightarrow> sub_camel t = t"
  unfolding no_hump_def
  by (induction t rule: sub_camel.induct) auto

lemma sub_camel_length: "length s \<le> length (sub_camel s)"
  by (induction s rule: sub_camel.induct) auto

subsection \<open>The whole pipeline\<close>

lemma normalise_class: "list_all keep_class (normalise s)"
  by (simp add: normalise_def sub_camel_class strip_class sub_spaces_class sub_nonalnum_class)

lemma normalise_single: "single_spaced (normalise s)"
  by (simp add: normalise_def sub_camel_single strip_single sub_spaces_single)

lemma normalise_trimmed: "trimmed (normalise s)"
  by (simp add: normalise_def sub_camel_trimmed strip_trimmed)

lemma normalise_no_hump: "no_hump (normalise s)"
  by (simp add: normalise_def sub_camel_no_hump)

lemma normalise_fixed:
  assumes "list_all keep_class t" "single_spaced t" "trimmed t" "no_hump t"
  shows "normalise t = t"
  using assms by (simp add: normalise_def sub_nonalnum_id sub_spaces_id strip_id sub_camel_id)

lemma normalise_idem: "normalise (normalise s) = normalise s"
  by (rule normalise_fixed)
     (rule normalise_class normalise_single normalise_trimmed normalise_no_hump)+

lemma clean_filename_normalise:
  "clean_filename s =
     (if 15 \<le> length (normalise s) \<and> length (normalise s) \<le> 100 then normalise s else [])"
  by (simp add: clean_filename_def normalise_def Let_def)

lemma draft_clean_filename_normalise:
  "draft_clean_filename s =
     (if 15 \<le> length (normalise s) \<and> length (normalise s) \<le> 100 then Some (normalise s)
      else None)"
  by (simp add: draft_clean_filename_def normalise_def Let_def)

lemma scan_clean_filename_normalise:
  "scan_clean_filename s =
     (if 15 \<le> length (normalise s) \<and> length (normalise s) \<le> 100
      then Some (fst (splitext (normalise s))) else None)"
  by (simp add: scan_clean_filename_def normalise_def Let_def)

lemma rfind_absent: "c \<notin> set p \<Longrightarrow> rfind c p = - 1"
  by (simp add: rfind_def)

lemma length_takeWhile_less:
  "x \<in> set xs \<Longrightarrow> \<not> P x \<Longrightarrow> length (takeWhile P xs) < length xs"
  by (induction xs) auto

lemma rfind_lower_bound: "- 1 \<le> rfind c p"
proof (cases "c \<in> set p")
  case True
  then have "length (takeWhile (\<lambda>x. x \<noteq> c) (rev p)) < length (rev p)"
    by (intro length_takeWhile_less [of c]) simp_all
  with True show ?thesis by (simp add: rfind_def)
next
  case False
  then show ?thesis by (simp add: rfind_def)
qed

lemma splitext_no_dot: "46 \<notin> set p \<Longrightarrow> splitext p = (p, [])"
  using rfind_lower_bound [of 47 p] by (simp add: splitext_def rfind_absent Let_def)

lemma splitext_normalise: "splitext (normalise s) = (normalise s, [])"
proof -
  have "46 \<notin> set (normalise s)"
    using normalise_class [of s] keep_class_not_dot by (auto simp: list_all_iff)
  then show ?thesis by (rule splitext_no_dot)
qed

lemma hd_last_normalise:
  "normalise s \<noteq> [] \<Longrightarrow> \<not> py_isspace (hd (normalise s)) \<and> \<not> py_isspace (last (normalise s))"
  using normalise_trimmed [of s] by (simp add: trimmed_def)


lemma alnum_only_normalise:
  assumes "list_all (\<lambda>c. keep_class c \<and> c \<noteq> 32) s"
  shows "length s \<le> length (normalise s)"
proof -
  from assms have k: "list_all keep_class s" and ns: "list_all (\<lambda>c. \<not> py_isspace c) s"
    by (auto simp: list_all_iff keep_class_space)
  from ns have "single_spaced s"
    unfolding single_spaced_def by (induction s) (auto simp: successively_Cons)
  moreover from ns have "trimmed s"
    by (cases s rule: rev_cases) (auto simp: trimmed_def list_all_iff hd_append)
  ultimately have "strip (sub_spaces (sub_nonalnum s)) = s"
    using k by (simp add: sub_nonalnum_id sub_spaces_id strip_id)
  then show ?thesis by (simp add: normalise_def sub_camel_length)
qed


section \<open>The validator: claims\<close>

text \<open>
  Claim C1. Whenever \<open>clean_filename\<close> does not reject (the \<open>ai-rename.py\<close> version returns
  a non-empty string, the \<open>scan.py\<close> version returns a string rather than \<open>None\<close>), the
  output has between 15 and 100 characters, all of them ASCII letters, digits or spaces,
  neither the first nor the last character is whitespace, and validating the output again
  returns the output itself.
\<close>

theorem clean_filename_accepted:
  "(clean_filename s \<noteq> [] \<longrightarrow>
      15 \<le> length (clean_filename s) \<and> length (clean_filename s) \<le> 100 \<and>
      list_all keep_class (clean_filename s) \<and>
      \<not> py_isspace (hd (clean_filename s)) \<and> \<not> py_isspace (last (clean_filename s)) \<and>
      clean_filename (clean_filename s) = clean_filename s) \<and>
   (\<forall>t. scan_clean_filename s = Some t \<longrightarrow>
      15 \<le> length t \<and> length t \<le> 100 \<and> list_all keep_class t \<and>
      \<not> py_isspace (hd t) \<and> \<not> py_isspace (last t) \<and>
      scan_clean_filename t = Some t)"
proof (cases "15 \<le> length (normalise s) \<and> length (normalise s) \<le> 100")
  case False
  then have "clean_filename s = []" and "scan_clean_filename s = None"
    by (auto simp: clean_filename_normalise scan_clean_filename_normalise)
  then show ?thesis by simp
next
  case True
  then have ne: "normalise s \<noteq> []" by auto
  have c: "clean_filename s = normalise s"
    using True by (simp add: clean_filename_normalise)
  have sc: "scan_clean_filename s = Some (normalise s)"
    using True by (simp add: scan_clean_filename_normalise splitext_normalise)
  have again: "clean_filename (normalise s) = normalise s"
    using True by (simp add: clean_filename_normalise normalise_idem)
  have sagain: "scan_clean_filename (normalise s) = Some (normalise s)"
    using True by (simp add: scan_clean_filename_normalise normalise_idem splitext_normalise)
  show ?thesis
    using True hd_last_normalise [OF ne] normalise_class [of s] again sagain
    by (simp add: c sc)
qed

theorem clean_filename_accepted_witness:
  "clean_filename (str ''camelCaseFilename'') \<noteq> [] \<and>
   length (clean_filename (str ''camelCaseFilename'')) = 19 \<and>
   clean_filename (clean_filename (str ''camelCaseFilename'')) =
     clean_filename (str ''camelCaseFilename'') \<and>
   scan_clean_filename (str ''camelCaseFilename'') = Some (str ''camel Case Filename'') \<and>
   scan_clean_filename (str ''camel Case Filename'') = Some (str ''camel Case Filename'')"
proof -
  have v: "clean_filename (str ''camelCaseFilename'') = str ''camel Case Filename''"
    by (simp add: validator_eval)
  have ne: "clean_filename (str ''camelCaseFilename'') \<noteq> []"
    by (simp add: v) (simp add: str_def)
  have len: "length (clean_filename (str ''camelCaseFilename'')) = 19"
    by (simp add: v) (simp add: str_def)
  have "splitext (str ''camel Case Filename'') = (str ''camel Case Filename'', [])"
    by (rule splitext_no_dot) (simp add: str_def)
  then have sv: "scan_clean_filename (str ''camelCaseFilename'') = Some (str ''camel Case Filename'')"
    by (simp add: validator_eval)
  from clean_filename_accepted [of "str ''camelCaseFilename''"] ne sv len
  show ?thesis by simp
qed

text \<open>
  Claim C2. The claim is that the validator strips a trailing extension, so that
  \<open>FilenameWithExtension.pdf\<close> is accepted as \<open>FilenameWithExtension\<close>. What the code
  computes on that input: the dot has become a space in the first step, so
  \<open>os.path.splitext\<close> in \<open>scan.py\<close> finds no extension, and both versions return
  \<open>Filename With Extension pdf\<close>, which still ends in the extension's letters.
\<close>

theorem clean_filename_keeps_extension:
  "clean_filename (str ''FilenameWithExtension.pdf'') = str ''Filename With Extension pdf'' \<and>
   scan_clean_filename (str ''FilenameWithExtension.pdf'') =
     Some (str ''Filename With Extension pdf'') \<and>
   draft_clean_filename (str ''FilenameWithExtension.pdf'') =
     Some (str ''Filename With Extension pdf'') \<and>
   str ''Filename With Extension pdf'' \<noteq> str ''FilenameWithExtension''"
proof -
  have "splitext (str ''Filename With Extension pdf'') = (str ''Filename With Extension pdf'', [])"
    by (rule splitext_no_dot) (simp add: str_def)
  then show ?thesis
    by (simp add: validator_eval)
qed

text \<open>
  Claim C3, as stated: \<open>Valid_Filename\<close> is validated to \<open>Valid Filename\<close>. The code rejects
  that input, because \<open>Valid Filename\<close> has 14 characters and the length check asks for at
  least 15.
\<close>

theorem valid_filename_example_rejected:
  "clean_filename (str ''Valid_Filename'') \<noteq> str ''Valid Filename'' \<and>
   scan_clean_filename (str ''Valid_Filename'') \<noteq> Some (str ''Valid Filename'') \<and>
   draft_clean_filename (str ''Valid_Filename'') \<noteq> Some (str ''Valid Filename'')"
  by (simp add: validator_eval)

text \<open>
  Claim C3, amended: \<open>Valid_Filename\<close> is rejected (its cleaned form \<open>Valid Filename\<close> has
  14 characters); \<open>camelCaseFilename\<close> is validated to \<open>camel Case Filename\<close>; a string of
  101 letters \<open>A\<close> is rejected; \<open>BB\<close> is rejected.
\<close>

theorem clean_filename_examples:
  "clean_filename (str ''Valid_Filename'') = [] \<and>
   normalise (str ''Valid_Filename'') = str ''Valid Filename'' \<and>
   length (str ''Valid Filename'') = 14 \<and>
   clean_filename (str ''camelCaseFilename'') = str ''camel Case Filename'' \<and>
   clean_filename (replicate 101 65) = [] \<and>
   clean_filename (str ''BB'') = []"
proof -
  have "list_all (\<lambda>c. keep_class c \<and> c \<noteq> 32) (replicate 101 65)"
    by (simp add: list_all_iff char_classes)
  from alnum_only_normalise [OF this] have "clean_filename (replicate 101 65) = []"
    by (simp add: clean_filename_normalise)
  then show ?thesis
    by (simp add: validator_eval normalise_def)
qed

text \<open>
  Claim C10. The three versions of \<open>clean_filename\<close> agree on every input up to the value
  that stands for rejection (\<open>''\<close> in \<open>ai-rename.py\<close>, \<open>None\<close> in the two drafts): the
  cleaned string never contains a dot, so \<open>os.path.splitext\<close> in \<open>scan.py\<close> returns it
  whole with an empty extension.
\<close>

theorem clean_filename_drafts_agree:
  "scan_clean_filename s = draft_clean_filename s \<and>
   draft_clean_filename s = (if clean_filename s = [] then None else Some (clean_filename s)) \<and>
   splitext (clean_filename s) = (clean_filename s, [])"
proof -
  have "splitext [] = ([], [])" by (rule splitext_no_dot) simp
  then show ?thesis
    by (auto simp: clean_filename_normalise draft_clean_filename_normalise
        scan_clean_filename_normalise splitext_normalise)
qed

theorem clean_filename_drafts_agree_witness:
  "scan_clean_filename (str ''Invoice.From.ACME.pdf'') = Some (str ''Invoice From ACME pdf'') \<and>
   draft_clean_filename (str ''Invoice.From.ACME.pdf'') = Some (str ''Invoice From ACME pdf'') \<and>
   clean_filename (str ''Invoice.From.ACME.pdf'') = str ''Invoice From ACME pdf'' \<and>
   scan_clean_filename (str ''BB'') = None \<and> draft_clean_filename (str ''BB'') = None \<and>
   clean_filename (str ''BB'') = []"
proof -
  have a: "clean_filename (str ''Invoice.From.ACME.pdf'') = str ''Invoice From ACME pdf''"
    by (simp add: validator_eval)
  have b: "clean_filename (str ''BB'') = []"
    by (simp add: validator_eval)
  have ne: "str ''Invoice From ACME pdf'' \<noteq> []" by (simp add: str_def)
  from clean_filename_drafts_agree [of "str ''Invoice.From.ACME.pdf''"]
    clean_filename_drafts_agree [of "str ''BB''"] a b ne
  show ?thesis by simp
qed


section \<open>Paths and the file system\<close>

text \<open>
  The directory tree the program works on is a finite table from paths to entries; a path
  names a regular file with its content or a directory. The program builds every path
  with \<open>os.path.join\<close>, so a path is identified with its string.
\<close>

type_synonym bytes = "nat list"

datatype node = File bytes | Dir

type_synonym fs = "(pystr \<times> node) list"

text \<open>The exceptions that the modelled code can meet.\<close>

datatype exn =
    KeyError | IndexError | TypeError
  | FileNotFoundError | FileExistsError | IsADirectoryError | SameFileError | ShutilError
  | CalledProcessError | UnicodeDecodeError | RequestException
  | BadRequestError | AuthenticationError | RateLimitError | APIConnectionError | LLMTimeout
  | SystemExit

definition isfile :: "fs \<Rightarrow> pystr \<Rightarrow> bool" where
  "isfile t p = (case map_of t p of Some (File c) \<Rightarrow> True | _ \<Rightarrow> False)"

definition isdir :: "fs \<Rightarrow> pystr \<Rightarrow> bool" where
  "isdir t p = (map_of t p = Some Dir)"

definition exists :: "fs \<Rightarrow> pystr \<Rightarrow> bool" where
  "exists t p = (map_of t p \<noteq> None)"

text \<open>\<open>posixpath.join\<close> for two arguments, \<open>basename\<close> and \<open>dirname\<close>.\<close>

definition join :: "pystr \<Rightarrow> pystr \<Rightarrow> pystr" where
  "join a b =
     (if take 1 b = [47] then b
      else if a = [] \<or> last a = 47 then a @ b
      else a @ [47] @ b)"

definition basename :: "pystr \<Rightarrow> pystr" where
  "basename p = drop (nat (rfind 47 p + 1)) p"

definition rstrip_sep :: "pystr \<Rightarrow> pystr" where
  "rstrip_sep s = rev (dropWhile (\<lambda>c. c = 47) (rev s))"

definition dirname :: "pystr \<Rightarrow> pystr" where
  "dirname p =
     (let i = nat (rfind 47 p + 1); head = take i p
      in if head \<noteq> [] \<and> head \<noteq> replicate (length head) 47 then rstrip_sep head else head)"

text \<open>\<open>str(n)\<close> for a natural number: its decimal digits.\<close>

function dec :: "nat \<Rightarrow> pystr" where
  "dec n = (if n < 10 then [48 + n] else dec (n div 10) @ [48 + n mod 10])"
  by pat_completeness auto
termination
  by (relation "measure id") auto

declare dec.simps [simp del]


text \<open>
  \<open>os.rename\<close>, \<open>shutil.move\<close> and \<open>shutil.copy2\<close> on a single device. Every call of
  the program has a path that passed \<open>os.path.isfile\<close> as its source; a directory as
  source is not modelled and reported as an error. A destination that is an existing
  regular file is replaced without notice, as POSIX \<open>rename\<close> and \<open>open(dst, 'wb')\<close> do.
\<close>

definition parent_exists :: "fs \<Rightarrow> pystr \<Rightarrow> bool" where
  "parent_exists t p = (dirname p = [] \<or> isdir t (dirname p))"

definition os_rename :: "pystr \<Rightarrow> pystr \<Rightarrow> fs \<Rightarrow> exn + fs" where
  "os_rename src dst t =
     (case map_of t src of
        None \<Rightarrow> Inl FileNotFoundError
      | Some Dir \<Rightarrow> Inl IsADirectoryError
      | Some (File c) \<Rightarrow>
          if isdir t dst then Inl IsADirectoryError
          else if parent_exists t dst then Inr (AList.update dst (File c) (AList.delete src t))
          else Inl FileNotFoundError)"

definition shutil_move :: "pystr \<Rightarrow> pystr \<Rightarrow> fs \<Rightarrow> exn + fs" where
  "shutil_move src dst t =
     (if isdir t dst then
        (let real_dst = join dst (basename (rstrip_sep src))
         in if exists t real_dst then Inl ShutilError else os_rename src real_dst t)
      else os_rename src dst t)"

definition shutil_copy2 :: "pystr \<Rightarrow> pystr \<Rightarrow> fs \<Rightarrow> exn + fs" where
  "shutil_copy2 src dst t =
     (let dst = (if isdir t dst then join dst (basename src) else dst)
      in case map_of t src of
           None \<Rightarrow> Inl FileNotFoundError
         | Some Dir \<Rightarrow> Inl IsADirectoryError
         | Some (File c) \<Rightarrow>
             if src = dst then Inl SameFileError
             else if isdir t dst then Inl IsADirectoryError
             else if parent_exists t dst then Inr (AList.update dst (File c) t)
             else Inl FileNotFoundError)"

text \<open>\<open>os.makedirs(name, exist_ok=True)\<close>: the missing ancestors are created first.\<close>

function ancestors :: "pystr \<Rightarrow> pystr list" where
  "ancestors p =
     (let head = dirname p
      in if head \<noteq> [] \<and> length head < length p then ancestors head @ [head] else [])"
  by pat_completeness auto
termination
  by (relation "measure length") auto

declare ancestors.simps [simp del]

fun mkdir_all :: "pystr list \<Rightarrow> fs \<Rightarrow> exn + fs" where
  "mkdir_all [] t = Inr t"
| "mkdir_all (d # ds) t =
     (case map_of t d of
        None \<Rightarrow> mkdir_all ds (AList.update d Dir t)
      | Some Dir \<Rightarrow> mkdir_all ds t
      | Some (File c) \<Rightarrow> Inl FileExistsError)"

definition os_makedirs :: "pystr \<Rightarrow> fs \<Rightarrow> exn + fs" where
  "os_makedirs name t = mkdir_all (ancestors name @ [name]) t"

subsection \<open>The state of a run\<close>

text \<open>
  A run changes the processed tree and the temporary directory of the run (a flat table
  from file names to contents), and it calls external programs and services. Each such
  call is recorded, in order.
\<close>

datatype call =
    Magick_pdf pystr
  | Mogrify pystr
  | Magick_threshold pystr pystr
  | Tesseract pystr
  | Http_post pystr pystr pystr
  | Llm_completion pystr pystr
  | Os_makedirs pystr
  | Shutil_move pystr pystr
  | Shutil_copy2 pystr pystr
  | Os_rename pystr pystr
  | Pdftoppm pystr pystr
  | Os_remove pystr

record world =
  tree :: fs
  workspace :: "(pystr \<times> bytes) list"
  calls :: "call list"

definition run_fs :: "call \<Rightarrow> (fs \<Rightarrow> exn + fs) \<Rightarrow> world \<Rightarrow> exn option \<times> world" where
  "run_fs c f w =
     (case f (tree w) of
        Inl e \<Rightarrow> (Some e, w\<lparr>calls := calls w @ [c]\<rparr>)
      | Inr t \<Rightarrow> (None, w\<lparr>tree := t, calls := calls w @ [c]\<rparr>))"

section \<open>Relocation\<close>

text \<open>The command-line flags that the pipeline reads.\<close>

record args =
  arg_dry_run :: bool
  arg_rename :: bool
  arg_move :: bool
  arg_copy :: bool
  arg_summarize :: bool

text \<open>\<open>FileProcessor.move_or_copy_file\<close>: \<open>except (IOError, OSError)\<close> logs and
  returns; another exception leaves the method.\<close>

definition is_OSError :: "exn \<Rightarrow> bool" where
  "is_OSError e \<longleftrightarrow>
     e \<in> {FileNotFoundError, FileExistsError, IsADirectoryError, SameFileError, ShutilError}"

definition move_or_copy_file ::
    "args \<Rightarrow> pystr \<Rightarrow> pystr \<Rightarrow> pystr option \<Rightarrow> pystr \<Rightarrow> world \<Rightarrow> exn option \<times> world" where
  "move_or_copy_file a file_path new_filepath orig_dir file_name w =
     (if arg_dry_run a then (None, w)
      else
        (let (r, w') =
           (if arg_move a then run_fs (Shutil_move file_path new_filepath)
                                 (shutil_move file_path new_filepath) w
            else if arg_copy a then
              (case run_fs (Shutil_copy2 file_path new_filepath)
                      (shutil_copy2 file_path new_filepath) w of
                 (Some e, w1) \<Rightarrow> (Some e, w1)
               | (None, w1) \<Rightarrow>
                   (case orig_dir of
                      None \<Rightarrow> (Some TypeError, w1)
                    | Some od \<Rightarrow> run_fs (Shutil_move file_path (join od file_name))
                                   (shutil_move file_path (join od file_name)) w1))
            else run_fs (Os_rename file_path new_filepath) (os_rename file_path new_filepath) w)
         in case r of
              None \<Rightarrow> (None, w')
            | Some e \<Rightarrow> if is_OSError e then (None, w') else (Some e, w')))"


subsection \<open>The collision loop of \<open>scan.py\<close>\<close>

lemma splitext_scan_cases:
  "0 \<le> f \<Longrightarrow>
   splitext_scan p f d = (p, []) \<or>
   (0 < d \<and> splitext_scan p f d = (take (nat d) p, drop (nat d) p))"
proof (induction p f d rule: splitext_scan.induct)
  case (1 p filenameIndex dotIndex)
  then show ?case
    by (subst (1 2) splitext_scan.simps) auto
qed

lemma splitext_cases:
  "splitext p = (p, []) \<or> (\<exists>n>0. splitext p = (take n p, drop n p))"
proof -
  have "0 \<le> rfind 47 p + 1" using rfind_lower_bound [of 47 p] by simp
  from splitext_scan_cases [OF this, of p "rfind 46 p"] show ?thesis
    by (auto simp: splitext_def Let_def intro: exI [of _ "nat (rfind 46 p)"])
qed

lemma splitext_concat: "fst (splitext p) @ snd (splitext p) = p"
  using splitext_cases [of p] by auto

lemma splitext_base: "fst (splitext p) = [] \<Longrightarrow> p = []"
  using splitext_cases [of p] by auto

lemma join_suffix_longer:
  assumes "b = [] \<Longrightarrow> e = []"
  shows "length (join d (b @ e)) < length (join d (b @ [95] @ s @ e))"
proof (cases b)
  case Nil
  with assms show ?thesis by (simp add: join_def)
next
  case (Cons x xs)
  then show ?thesis by (simp add: join_def)
qed

lemma exists_in_keys: "exists t p \<Longrightarrow> p \<in> set (map fst t)"
  by (auto simp: exists_def dest: map_of_SomeD intro: rev_image_eqI)

lemma filter_longer_less:
  assumes "p \<in> set ps" "length p = k" "k < k'"
  shows "length (filter (\<lambda>q. k' \<le> length q) ps) < length (filter (\<lambda>q. k \<le> length q) ps)"
proof -
  have "filter (\<lambda>q. k' \<le> length q) ps = filter (\<lambda>q. k' \<le> length q) (filter (\<lambda>q. k \<le> length q) ps)"
    using assms(3) by (auto intro: filter_cong)
  moreover have "p \<in> set (filter (\<lambda>q. k \<le> length q) ps)" using assms by simp
  moreover have "\<not> k' \<le> length p" using assms by simp
  ultimately show ?thesis by (metis length_filter_less)
qed

text \<open>
  The \<open>while os.path.exists(new_filepath)\<close> loop of the first script of \<open>scan.py\<close>. Its
  variables are \<open>new_filename\<close> and \<open>counter\<close>; \<open>new_filepath\<close> is always
  \<open>os.path.join(DONE_DIR, new_filename)\<close>. The result is the final \<open>new_filename\<close>.
\<close>

function collision_loop :: "fs \<Rightarrow> pystr \<Rightarrow> pystr \<Rightarrow> nat \<Rightarrow> pystr" where
  "collision_loop t done_dir new_filename counter =
     (if exists t (join done_dir new_filename) then
        (let (base_name, ext) = splitext new_filename
         in collision_loop t done_dir (base_name @ [95] @ dec counter @ ext) (counter + 1))
      else new_filename)"
  by pat_completeness auto
termination
proof (relation "measure (\<lambda>(t, d, n, c). length (filter (\<lambda>q. length (join d n) \<le> length q) (map fst t)))",
    goal_cases)
  case 1
  show ?case by simp
next
  case (2 t done_dir new_filename counter x xa y)
  from 2(2,3) have sp: "splitext new_filename = (xa, y)" by simp
  have be: "xa @ y = new_filename"
    using splitext_concat [of new_filename] by (simp add: sp)
  have b: "xa = [] \<Longrightarrow> y = []"
    using splitext_base [of new_filename] be by (simp add: sp)
  have lt: "length (join done_dir new_filename) < length (join done_dir (xa @ [95] @ dec counter @ y))"
    using join_suffix_longer [of xa y done_dir "dec counter"] b be by simp
  from filter_longer_less [OF exists_in_keys [OF 2(1)] refl lt] show ?case
    by simp
qed

declare collision_loop.simps [simp del]

text \<open>
  \<open>str.lower\<close> is modelled on ASCII letters. It is only used in front of comparisons
  with \<open>.pdf\<close>, \<open>.jpg\<close> and \<open>.png\<close>, and no character outside ASCII has one of
  their letters as its lower case.
\<close>

definition startswith :: "pystr \<Rightarrow> pystr \<Rightarrow> bool" where
  "startswith s prefix = (take (length prefix) s = prefix)"

definition endswith :: "pystr \<Rightarrow> pystr \<Rightarrow> bool" where
  "endswith s suffix = (length suffix \<le> length s \<and> drop (length s - length suffix) s = suffix)"

definition lower :: "pystr \<Rightarrow> pystr" where
  "lower s = map (\<lambda>c. if is_upper c then c + 32 else c) s"

text \<open>
  The relocation at the end of the processing loop of the first script of \<open>scan.py\<close>:
  with \<open>KEEP_ORIGINAL\<close> a copy to the new path and a move of the original into
  \<open>orig\<close>, otherwise a move to the new path.
\<close>

definition scan_relocate ::
    "bool \<Rightarrow> pystr \<Rightarrow> pystr \<Rightarrow> pystr \<Rightarrow> world \<Rightarrow> exn option \<times> world" where
  "scan_relocate KEEP_ORIGINAL file_path new_filepath orig_path w =
     (if KEEP_ORIGINAL then
        (case run_fs (Shutil_copy2 file_path new_filepath)
                (shutil_copy2 file_path new_filepath) w of
           (Some e, w1) \<Rightarrow> (Some e, w1)
         | (None, w1) \<Rightarrow>
             run_fs (Shutil_move file_path orig_path) (shutil_move file_path orig_path) w1)
      else run_fs (Shutil_move file_path new_filepath) (shutil_move file_path new_filepath) w)"









section \<open>Relocation: properties\<close>

text \<open>A small tree for examples: a directory \<open>d\<close> with \<open>done\<close> and \<open>orig\<close>, one file
  already in \<open>done\<close>, and one source file.\<close>
definition report_tree :: fs where
  "report_tree = [(str ''d'', Dir), (str ''d/done'', Dir), (str ''d/orig'', Dir),
         (str ''d/done/Report.pdf'', File [1]), (str ''d/scan7.pdf'', File [2])]"

definition report_world :: world where "report_world = \<lparr>tree = report_tree, workspace = [], calls = []\<rparr>"
lemmas path_eval =
  str_def join_def exists_def isfile_def isdir_def splitext_def rfind_def splitext_scan.simps
  dec.simps basename_def dirname_def rstrip_sep_def parent_exists_def endswith_def lower_def
  is_upper_def

lemma run_fs_calls: "calls (snd (run_fs c f w)) = calls w @ [c]"
  by (simp add: run_fs_def split: sum.splits)

lemma run_fs_tree:
  "tree (snd (run_fs c f w)) = (case f (tree w) of Inl e \<Rightarrow> tree w | Inr t \<Rightarrow> t)"
  by (simp add: run_fs_def split: sum.splits)

lemma run_fs_workspace: "workspace (snd (run_fs c f w)) = workspace w"
  by (simp add: run_fs_def split: sum.splits)
text \<open>
  Claim C9. \<open>move_or_copy_file\<close> performs one action, chosen by a fixed priority of the
  flags, whatever the other flags are: with \<open>dry_run\<close> nothing is done; otherwise
  \<open>move\<close> wins and the only call is \<open>shutil.move\<close> to the target; otherwise \<open>copy\<close>
  wins, and the calls are \<open>shutil.copy2\<close> to the target and then, when the copy
  succeeded, \<open>shutil.move\<close> of the original into \<open>orig_dir\<close> under its old name;
  otherwise the only call is \<open>os.rename\<close> to the target.
\<close>

theorem move_or_copy_file_precedence:
  "(arg_dry_run a \<longrightarrow> move_or_copy_file a src dst od nm w = (None, w)) \<and>
   (\<not> arg_dry_run a \<and> arg_move a \<longrightarrow>
      calls (snd (move_or_copy_file a src dst od nm w)) = calls w @ [Shutil_move src dst] \<and>
      tree (snd (move_or_copy_file a src dst od nm w)) =
        (case shutil_move src dst (tree w) of Inl e \<Rightarrow> tree w | Inr t \<Rightarrow> t)) \<and>
   (\<not> arg_dry_run a \<and> \<not> arg_move a \<and> arg_copy a \<longrightarrow>
      calls (snd (move_or_copy_file a src dst od nm w)) =
        (case (shutil_copy2 src dst (tree w), od) of
           (Inr t, Some orig_dir) \<Rightarrow>
             calls w @ [Shutil_copy2 src dst, Shutil_move src (join orig_dir nm)]
         | _ \<Rightarrow> calls w @ [Shutil_copy2 src dst]) \<and>
      tree (snd (move_or_copy_file a src dst od nm w)) =
        (case shutil_copy2 src dst (tree w) of
           Inl e \<Rightarrow> tree w
         | Inr t \<Rightarrow>
             (case od of
                None \<Rightarrow> t
              | Some orig_dir \<Rightarrow>
                  (case shutil_move src (join orig_dir nm) t of Inl e \<Rightarrow> t | Inr t' \<Rightarrow> t')))) \<and>
   (\<not> arg_dry_run a \<and> \<not> arg_move a \<and> \<not> arg_copy a \<longrightarrow>
      calls (snd (move_or_copy_file a src dst od nm w)) = calls w @ [Os_rename src dst] \<and>
      tree (snd (move_or_copy_file a src dst od nm w)) =
        (case os_rename src dst (tree w) of Inl e \<Rightarrow> tree w | Inr t \<Rightarrow> t))"
  by (auto simp: move_or_copy_file_def run_fs_def Let_def
      split: sum.splits option.splits prod.splits)

theorem move_or_copy_file_precedence_witness:
  "move_or_copy_file
      \<lparr>arg_dry_run = True, arg_rename = True, arg_move = True, arg_copy = True,
        arg_summarize = False\<rparr>
      (str ''d/scan7.pdf'') (str ''d/done/New Name Of The File.pdf'') (Some (str ''d/orig''))
      (str ''scan7.pdf'') report_world = (None, report_world) \<and>
   calls (snd (move_or_copy_file
      \<lparr>arg_dry_run = False, arg_rename = True, arg_move = True, arg_copy = True,
        arg_summarize = False\<rparr>
      (str ''d/scan7.pdf'') (str ''d/done/New Name Of The File.pdf'') (Some (str ''d/orig''))
      (str ''scan7.pdf'') report_world)) =
     [Shutil_move (str ''d/scan7.pdf'') (str ''d/done/New Name Of The File.pdf'')] \<and>
   calls (snd (move_or_copy_file
      \<lparr>arg_dry_run = False, arg_rename = True, arg_move = False, arg_copy = True,
        arg_summarize = False\<rparr>
      (str ''d/scan7.pdf'') (str ''d/done/New Name Of The File.pdf'') (Some (str ''d/orig''))
      (str ''scan7.pdf'') report_world)) =
     [Shutil_copy2 (str ''d/scan7.pdf'') (str ''d/done/New Name Of The File.pdf''),
      Shutil_move (str ''d/scan7.pdf'') (str ''d/orig/scan7.pdf'')] \<and>
   calls (snd (move_or_copy_file
      \<lparr>arg_dry_run = False, arg_rename = True, arg_move = False, arg_copy = False,
        arg_summarize = False\<rparr>
      (str ''d/scan7.pdf'') (str ''d/done/New Name Of The File.pdf'') (Some (str ''d/orig''))
      (str ''scan7.pdf'') report_world)) =
     [Os_rename (str ''d/scan7.pdf'') (str ''d/done/New Name Of The File.pdf'')]"
proof -
  let ?src = "str ''d/scan7.pdf''" and ?dst = "str ''d/done/New Name Of The File.pdf''"
  let ?a = "\<lambda>d m c. \<lparr>arg_dry_run = d, arg_rename = True, arg_move = m, arg_copy = c,
        arg_summarize = False\<rparr>"
  have c: "\<exists>t. shutil_copy2 ?src ?dst (tree report_world) = Inr t"
    by (simp add: shutil_copy2_def report_world_def report_tree_def path_eval)
  have j: "join (str ''d/orig'') (str ''scan7.pdf'') = str ''d/orig/scan7.pdf''"
    by (simp add: path_eval)
  have w: "calls report_world = []" by (simp add: report_world_def)
  from move_or_copy_file_precedence [of "?a True True True" ?src ?dst "Some (str ''d/orig'')" "str ''scan7.pdf''" report_world]
    move_or_copy_file_precedence [of "?a False True True" ?src ?dst "Some (str ''d/orig'')" "str ''scan7.pdf''" report_world]
    move_or_copy_file_precedence [of "?a False False True" ?src ?dst "Some (str ''d/orig'')" "str ''scan7.pdf''" report_world]
    move_or_copy_file_precedence [of "?a False False False" ?src ?dst "Some (str ''d/orig'')" "str ''scan7.pdf''" report_world]
    c j w
  show ?thesis by auto
qed


section \<open>The naming client\<close>

text \<open>
  A chat-completion response, as far as the code looks into it with
  \<open>response['choices'][0]['message']['content']\<close>: each key may be missing and the list of
  choices may be empty. Values of other shapes are not modelled.
\<close>

datatype message = Message (content: "pystr option")
datatype choice = Choice (message: "message option")
datatype response = Response (choices: "choice list option")

fun first_content :: "response \<Rightarrow> exn + pystr" where
  "first_content (Response None) = Inl KeyError"
| "first_content (Response (Some [])) = Inl IndexError"
| "first_content (Response (Some (Choice None # cs))) = Inl KeyError"
| "first_content (Response (Some (Choice (Some (Message None)) # cs))) = Inl KeyError"
| "first_content (Response (Some (Choice (Some (Message (Some s))) # cs))) = Inr (strip s)"

text \<open>
  What the outside world answers. \<open>litellm.completion\<close> raises or returns a response;
  \<open>requests.post\<close> raises a \<open>RequestException\<close> (no connection, timeout) or returns a
  status code and a body that is JSON or not; \<open>tesseract\<close> exits with status zero or
  not, and its output decodes to text or only after invalid bytes are dropped.
\<close>

datatype llm_result = Llm_raises exn | Llm_returns response

datatype body = Not_json | Json response

datatype http_result = Http_raises | Http_response nat body

datatype tess_output = Text pystr | Undecodable pystr

datatype tess_result = Tess bool tess_output

text \<open>
  The external programs and services are parameters of the model: each is a function of
  its input, and the two services also of the number of requests made before, so that an
  answer can change from one attempt to the next.
\<close>

record env =
  rasterize :: "bytes \<Rightarrow> bytes list"
  enhance :: "bytes \<Rightarrow> bytes"
  threshold :: "bytes \<Rightarrow> bytes option"
  tesseract :: "pystr \<Rightarrow> bytes \<Rightarrow> tess_result"
  http_post :: "nat \<Rightarrow> pystr \<Rightarrow> pystr \<Rightarrow> pystr \<Rightarrow> http_result"
  llm_completion :: "nat \<Rightarrow> pystr \<Rightarrow> pystr \<Rightarrow> llm_result"

text \<open>The configuration; a key that may be missing from the file is an option.\<close>

record config =
  LANGUAGE :: pystr
  ORIG_SUBDIR :: "pystr option"
  MODEL :: "pystr option"
  API_BASE :: "pystr option"
  API_TOKEN :: "pystr option"
  prompt_filename_generation :: "pystr option"
  prompt_summarization :: "pystr option"

fun is_llm_call :: "call \<Rightarrow> bool" where
  "is_llm_call (Llm_completion m p) = True"
| "is_llm_call c = False"

fun is_http_call :: "call \<Rightarrow> bool" where
  "is_http_call (Http_post u s c) = True"
| "is_http_call c = False"

text \<open>\<open>FileProcessor.call_llm\<close>: the loop \<open>for attempt in range(2)\<close>. \<open>Inl\<close> is an
  exception that leaves the method, \<open>Inr\<close> the returned string.\<close>

fun call_llm_loop ::
    "env \<Rightarrow> pystr \<Rightarrow> pystr \<Rightarrow> nat list \<Rightarrow> world \<Rightarrow> (exn + pystr) \<times> world" where
  "call_llm_loop e model prompt [] w = (Inr [], w)"
| "call_llm_loop e model prompt (attempt # rest) w =
     (let w1 = w\<lparr>calls := calls w @ [Llm_completion model prompt]\<rparr>
      in case llm_completion e (length (filter is_llm_call (calls w))) model prompt of
           Llm_raises x \<Rightarrow>
             if x = BadRequestError then
               (if attempt = 0 then call_llm_loop e model prompt rest w1 else (Inr [], w1))
             else if x = KeyError \<or> x = IndexError then (Inr [], w1)
             else (Inl x, w1)
         | Llm_returns r \<Rightarrow>
             (case first_content r of
                Inl x \<Rightarrow> if x = KeyError \<or> x = IndexError then (Inr [], w1) else (Inl x, w1)
              | Inr llm_response \<Rightarrow> (Inr llm_response, w1)))"

definition call_llm :: "env \<Rightarrow> config \<Rightarrow> pystr \<Rightarrow> world \<Rightarrow> (exn + pystr) \<times> world" where
  "call_llm e cfg prompt w =
     (let model = (case MODEL cfg of None \<Rightarrow> str ''gpt2'' | Some m \<Rightarrow> m)
      in call_llm_loop e (str ''huggingface/'' @ model) prompt [0, 1] w)"

text \<open>
  \<open>FileProcessor.generate_filename\<close>: one \<open>requests.post\<close>. \<open>reply_filename\<close> is what
  the \<open>try\<close> block makes of the reply (\<open>raise_for_status\<close>, \<open>json\<close>, the look-up of
  the content); its handler catches \<open>RequestException\<close>, \<open>JSONDecodeError\<close> and
  \<open>KeyError\<close>. The prompt is read before the \<open>try\<close>, the token inside it.
\<close>

definition reply_filename :: "http_result \<Rightarrow> exn + pystr" where
  "reply_filename reply =
     (case reply of
        Http_raises \<Rightarrow> Inr []
      | Http_response status_code b \<Rightarrow>
          if 400 \<le> status_code \<and> status_code < 600 then Inr []
          else
            (case b of
               Not_json \<Rightarrow> Inr []
             | Json response_json \<Rightarrow>
                 (case first_content response_json of
                    Inl x \<Rightarrow> if x = KeyError then Inr [] else Inl x
                  | Inr s \<Rightarrow> Inr s)))"

definition generate_filename ::
    "env \<Rightarrow> config \<Rightarrow> pystr \<Rightarrow> world \<Rightarrow> (exn + pystr) \<times> world" where
  "generate_filename e cfg ocr_text w =
     (case prompt_filename_generation cfg of
        None \<Rightarrow> (Inl KeyError, w)
      | Some filename_prompt \<Rightarrow>
          (let user_content = str ''Here is the file content: '' @ ocr_text;
               api_base = (case API_BASE cfg of
                             None \<Rightarrow> str ''https://api-inference.huggingface.co/models/gpt2''
                           | Some b \<Rightarrow> b)
           in case API_TOKEN cfg of
                None \<Rightarrow> (Inr [], w)
              | Some token \<Rightarrow>
                  (reply_filename
                     (http_post e (length (filter is_http_call (calls w)))
                        api_base filename_prompt user_content),
                   w\<lparr>calls := calls w @ [Http_post api_base filename_prompt user_content]\<rparr>)))"


section \<open>The naming client: properties\<close>

definition env_failing :: env where
  "env_failing =
     \<lparr>rasterize = (\<lambda>c. []), enhance = (\<lambda>c. c), threshold = (\<lambda>c. Some c),
      tesseract = (\<lambda>l c. Tess True (Text c)),
      http_post = (\<lambda>n u s c. Http_response 400 Not_json),
      llm_completion = (\<lambda>n m p. Llm_raises APIConnectionError)\<rparr>"

definition example_config :: config where
  "example_config =
     \<lparr>LANGUAGE = str ''eng'', ORIG_SUBDIR = None, MODEL = None,
      API_BASE = Some (str ''http://localhost:1234/v1/chat/completions''),
      API_TOKEN = Some (str ''token''),
      prompt_filename_generation = Some (str ''Name this file''),
      prompt_summarization = Some (str ''Summarize'')\<rparr>"

definition empty_world :: world where
  "empty_world = \<lparr>tree = [], workspace = [], calls = []\<rparr>"

lemma first_content_error: "first_content r = Inl x \<Longrightarrow> x = KeyError \<or> x = IndexError"
  by (induction r rule: first_content.induct) auto

text \<open>
  Claim C4, as stated, fails in two ways. \<open>call_llm\<close> does not catch a network failure:
  the exception leaves the method instead of yielding the empty result. And
  \<open>generate_filename\<close>, which asks for the file name, never retries: a response with
  status 400 gives the empty result after a single request.
\<close>

theorem naming_retry_counterexample:
  "fst (call_llm env_failing example_config (str ''hello'') empty_world) = Inl APIConnectionError \<and>
   http_post env_failing 0 (str ''http://localhost:1234/v1/chat/completions'')
     (str ''Name this file'') (str ''Here is the file content: text'') =
     Http_response 400 Not_json \<and>
   generate_filename env_failing example_config (str ''text'') empty_world =
     (Inr [], \<lparr>tree = [], workspace = [],
        calls = [Http_post (str ''http://localhost:1234/v1/chat/completions'')
                   (str ''Name this file'') (str ''Here is the file content: text'')]\<rparr>)"
  by (simp add: call_llm_def generate_filename_def reply_filename_def env_failing_def example_config_def empty_world_def Let_def)
     (simp add: str_def)

text \<open>
  Claim C4, amended. \<open>call_llm\<close> makes a second attempt, with the same model and prompt,
  exactly when the first attempt raised \<open>BadRequestError\<close>, and never a third; a response
  with a missing field (\<open>KeyError\<close>, \<open>IndexError\<close>) gives the empty result at once; any
  other exception of the first attempt leaves \<open>call_llm\<close> at once. \<open>generate_filename\<close>
  sends at most one request and never retries; a failed request, a status from 400 to
  599, a body that is not JSON and a missing key all give the empty result.
\<close>

theorem naming_retry_policy:
  "(let model = str ''huggingface/'' @ (case MODEL cfg of None \<Rightarrow> str ''gpt2'' | Some m \<Rightarrow> m);
        attempt = Llm_completion model prompt;
        first = llm_completion e (length (filter is_llm_call (calls w))) model prompt;
        result = fst (call_llm e cfg prompt w);
        w' = snd (call_llm e cfg prompt w)
    in (first = Llm_raises BadRequestError \<longrightarrow> calls w' = calls w @ [attempt, attempt]) \<and>
       (first \<noteq> Llm_raises BadRequestError \<longrightarrow> calls w' = calls w @ [attempt]) \<and>
       (\<forall>r x. first = Llm_returns r \<and> first_content r = Inl x \<longrightarrow> result = Inr []) \<and>
       (\<forall>x. first = Llm_raises x \<and> (x = KeyError \<or> x = IndexError) \<longrightarrow> result = Inr []) \<and>
       (\<forall>x. first = Llm_raises x \<and> x \<noteq> BadRequestError \<and> x \<noteq> KeyError \<and> x \<noteq> IndexError \<longrightarrow>
          result = Inl x) \<and>
       tree w' = tree w \<and> workspace w' = workspace w) \<and>
   (let w' = snd (generate_filename e cfg ocr_text w)
    in (calls w' = calls w \<or> (\<exists>url sys_prompt user. calls w' = calls w @ [Http_post url sys_prompt user])) \<and>
       tree w' = tree w \<and> workspace w' = workspace w) \<and>
   (\<forall>filename_prompt token.
      prompt_filename_generation cfg = Some filename_prompt \<and> API_TOKEN cfg = Some token \<longrightarrow>
      (let url = (case API_BASE cfg of
                    None \<Rightarrow> str ''https://api-inference.huggingface.co/models/gpt2''
                  | Some b \<Rightarrow> b);
           user = str ''Here is the file content: '' @ ocr_text;
           reply = http_post e (length (filter is_http_call (calls w))) url filename_prompt user;
           result = fst (generate_filename e cfg ocr_text w);
           w' = snd (generate_filename e cfg ocr_text w)
       in calls w' = calls w @ [Http_post url filename_prompt user] \<and>
          (reply = Http_raises \<longrightarrow> result = Inr []) \<and>
          (\<forall>status_code b. reply = Http_response status_code b \<and>
              400 \<le> status_code \<and> status_code < 600 \<longrightarrow> result = Inr []) \<and>
          (\<forall>status_code. reply = Http_response status_code Not_json \<longrightarrow> result = Inr []) \<and>
          (\<forall>status_code r. reply = Http_response status_code (Json r) \<and>
              first_content r = Inl KeyError \<longrightarrow> result = Inr [])))"
proof (intro conjI)
  show "let model = str ''huggingface/'' @ (case MODEL cfg of None \<Rightarrow> str ''gpt2'' | Some m \<Rightarrow> m);
        attempt = Llm_completion model prompt;
        first = llm_completion e (length (filter is_llm_call (calls w))) model prompt;
        result = fst (call_llm e cfg prompt w);
        w' = snd (call_llm e cfg prompt w)
    in (first = Llm_raises BadRequestError \<longrightarrow> calls w' = calls w @ [attempt, attempt]) \<and>
       (first \<noteq> Llm_raises BadRequestError \<longrightarrow> calls w' = calls w @ [attempt]) \<and>
       (\<forall>r x. first = Llm_returns r \<and> first_content r = Inl x \<longrightarrow> result = Inr []) \<and>
       (\<forall>x. first = Llm_raises x \<and> (x = KeyError \<or> x = IndexError) \<longrightarrow> result = Inr []) \<and>
       (\<forall>x. first = Llm_raises x \<and> x \<noteq> BadRequestError \<and> x \<noteq> KeyError \<and> x \<noteq> IndexError \<longrightarrow>
          result = Inl x) \<and>
       tree w' = tree w \<and> workspace w' = workspace w"
    by (auto simp: call_llm_def Let_def split: llm_result.splits sum.splits
        dest: first_content_error)
next
  show "let w' = snd (generate_filename e cfg ocr_text w)
    in (calls w' = calls w \<or> (\<exists>url sys_prompt user. calls w' = calls w @ [Http_post url sys_prompt user])) \<and>
       tree w' = tree w \<and> workspace w' = workspace w"
    by (auto simp: generate_filename_def reply_filename_def Let_def
        split: option.splits http_result.splits body.splits sum.splits)
next
  show "\<forall>filename_prompt token.
      prompt_filename_generation cfg = Some filename_prompt \<and> API_TOKEN cfg = Some token \<longrightarrow>
      (let url = (case API_BASE cfg of
                    None \<Rightarrow> str ''https://api-inference.huggingface.co/models/gpt2''
                  | Some b \<Rightarrow> b);
           user = str ''Here is the file content: '' @ ocr_text;
           reply = http_post e (length (filter is_http_call (calls w))) url filename_prompt user;
           result = fst (generate_filename e cfg ocr_text w);
           w' = snd (generate_filename e cfg ocr_text w)
       in calls w' = calls w @ [Http_post url filename_prompt user] \<and>
          (reply = Http_raises \<longrightarrow> result = Inr []) \<and>
          (\<forall>status_code b. reply = Http_response status_code b \<and>
              400 \<le> status_code \<and> status_code < 600 \<longrightarrow> result = Inr []) \<and>
          (\<forall>status_code. reply = Http_response status_code Not_json \<longrightarrow> result = Inr []) \<and>
          (\<forall>status_code r. reply = Http_response status_code (Json r) \<and>
              first_content r = Inl KeyError \<longrightarrow> result = Inr []))"
    by (auto simp: generate_filename_def reply_filename_def Let_def
        split: option.splits http_result.splits body.splits sum.splits)
qed

definition env_retry :: env where
  "env_retry =
     \<lparr>rasterize = (\<lambda>c. [c]), enhance = (\<lambda>c. c), threshold = (\<lambda>c. Some c),
      tesseract = (\<lambda>l c. Tess True (Text c)),
      http_post = (\<lambda>n u s c. Http_response 503 Not_json),
      llm_completion =
        (\<lambda>n m p. if n = 0 then Llm_raises BadRequestError
                 else Llm_returns
                        (Response (Some [Choice (Some (Message (Some (str '' Test successful ''))))])))\<rparr>"

theorem naming_retry_policy_witness:
  "llm_completion env_retry (length (filter is_llm_call (calls empty_world)))
     (str ''huggingface/gpt2'') (str ''hello'') = Llm_raises BadRequestError \<and>
   calls (snd (call_llm env_retry example_config (str ''hello'') empty_world)) =
     [Llm_completion (str ''huggingface/gpt2'') (str ''hello''),
      Llm_completion (str ''huggingface/gpt2'') (str ''hello'')] \<and>
   fst (call_llm env_retry example_config (str ''hello'') empty_world) =
     Inr (str ''Test successful'') \<and>
   prompt_filename_generation example_config = Some (str ''Name this file'') \<and>
   API_TOKEN example_config = Some (str ''token'') \<and>
   http_post env_retry (length (filter is_http_call (calls empty_world)))
     (str ''http://localhost:1234/v1/chat/completions'') (str ''Name this file'')
     (str ''Here is the file content: text'') = Http_response 503 Not_json \<and>
   fst (generate_filename env_retry example_config (str ''text'') empty_world) = Inr [] \<and>
   calls (snd (generate_filename env_retry example_config (str ''text'') empty_world)) =
     [Http_post (str ''http://localhost:1234/v1/chat/completions'') (str ''Name this file'')
        (str ''Here is the file content: text'')]"
proof -
  have m: "str ''huggingface/'' @ (case MODEL example_config of None \<Rightarrow> str ''gpt2'' | Some m \<Rightarrow> m) =
      str ''huggingface/gpt2''"
    by (simp add: example_config_def str_def)
  have first: "llm_completion env_retry (length (filter is_llm_call (calls empty_world)))
     (str ''huggingface/gpt2'') (str ''hello'') = Llm_raises BadRequestError"
    by (simp add: env_retry_def empty_world_def)
  have result: "fst (call_llm env_retry example_config (str ''hello'') empty_world) =
     Inr (str ''Test successful'')"
    by (simp add: call_llm_def env_retry_def example_config_def empty_world_def Let_def)
       (simp add: strip_def str_def py_isspace_def)
  have p: "prompt_filename_generation example_config = Some (str ''Name this file'')"
    and t: "API_TOKEN example_config = Some (str ''token'')"
    and b: "API_BASE example_config = Some (str ''http://localhost:1234/v1/chat/completions'')"
    by (simp_all add: example_config_def)
  have reply: "http_post env_retry (length (filter is_http_call (calls empty_world)))
     (str ''http://localhost:1234/v1/chat/completions'') (str ''Name this file'')
     (str ''Here is the file content: '' @ str ''text'') = Http_response 503 Not_json"
    by (simp add: env_retry_def)
  have u: "str ''Here is the file content: '' @ str ''text'' = str ''Here is the file content: text''"
    by (simp add: str_def)
  have c: "calls empty_world = []" by (simp add: empty_world_def)
  from naming_retry_policy [of example_config "str ''hello''" env_retry empty_world "str ''text''"]
    first p t reply
  have "calls (snd (call_llm env_retry example_config (str ''hello'') empty_world)) =
      calls empty_world @ [Llm_completion (str ''huggingface/gpt2'') (str ''hello''),
        Llm_completion (str ''huggingface/gpt2'') (str ''hello'')]"
    and "fst (generate_filename env_retry example_config (str ''text'') empty_world) = Inr []"
    and "calls (snd (generate_filename env_retry example_config (str ''text'') empty_world)) =
      calls empty_world @
      [Http_post (str ''http://localhost:1234/v1/chat/completions'') (str ''Name this file'')
        (str ''Here is the file content: '' @ str ''text'')]"
    by (simp_all add: Let_def m b)
  with first result p t reply show ?thesis by (simp add: c u)
qed


section \<open>The first script of \<open>scan.py\<close>\<close>

text \<open>
  The script renders the first page of a PDF with \<open>pdftoppm\<close>, reads it with
  \<open>tesseract\<close>, asks a chat endpoint for a name and relocates the file. The two programs
  and the endpoint are parameters of the model, and so is \<open>json.loads\<close> on the content
  of the reply: it rejects the string, or reads a value that is not an object, or reads an
  object whose \<open>filename\<close> and \<open>justification\<close> are strings or missing.
\<close>

datatype ai_response = Invalid_json | Not_a_dict | Dict "pystr option" "pystr option"

record scan_env =
  pdftoppm :: "bytes \<Rightarrow> bytes option"
  scan_tesseract :: "pystr \<Rightarrow> bytes \<Rightarrow> tess_result"
  scan_http_post :: "nat \<Rightarrow> pystr \<Rightarrow> pystr \<Rightarrow> pystr \<Rightarrow> http_result"
  json_loads :: "pystr \<Rightarrow> ai_response"

text \<open>
  \<open>subprocess.run(['pdftoppm', file_path, root, '-png', '-f', '1', '-singlefile'])\<close>:
  the first page is written to \<open>root.png\<close>, in place of a file of that name. Nothing is
  written when the source is not a file, when the page cannot be rendered, or when the
  name belongs to a directory. The exit status is not looked at. Both programs are taken
  to be installed, so that starting them does not fail.
\<close>

definition run_pdftoppm :: "scan_env \<Rightarrow> pystr \<Rightarrow> pystr \<Rightarrow> world \<Rightarrow> world" where
  "run_pdftoppm e file_path root w =
     (let image_file = root @ str ''.png'';
          t1 = (case map_of (tree w) file_path of
                  Some (File c) \<Rightarrow>
                    (case pdftoppm e c of
                       None \<Rightarrow> tree w
                     | Some png \<Rightarrow>
                         if isdir (tree w) image_file then tree w
                         else AList.update image_file (File png) (tree w))
                | _ \<Rightarrow> tree w)
      in w\<lparr>tree := t1, calls := calls w @ [Pdftoppm file_path root]\<rparr>)"

text \<open>
  \<open>subprocess.check_output(['tesseract', path, '-', '-l', LANGUAGE]).decode('utf-8')\<close>
  with \<open>LANGUAGE = 'eng'\<close>: a non-zero exit status raises \<open>CalledProcessError\<close>, and
  output that is not UTF-8 raises \<open>UnicodeDecodeError\<close>.
\<close>

definition check_output_tesseract ::
    "scan_env \<Rightarrow> pystr \<Rightarrow> world \<Rightarrow> (exn + pystr) \<times> world" where
  "check_output_tesseract e path w =
     (let w1 = w\<lparr>calls := calls w @ [Tesseract path]\<rparr>;
          run = (case map_of (tree w) path of
                   Some (File c) \<Rightarrow> scan_tesseract e (str ''eng'') c
                 | _ \<Rightarrow> Tess False (Text []))
      in case run of
           Tess ok out \<Rightarrow>
             if \<not> ok then (Inl CalledProcessError, w1)
             else (case out of
                     Text stdout \<Rightarrow> (Inr stdout, w1)
                   | Undecodable lossy \<Rightarrow> (Inl UnicodeDecodeError, w1)))"

definition os_remove :: "pystr \<Rightarrow> fs \<Rightarrow> exn + fs" where
  "os_remove path t =
     (case map_of t path of
        None \<Rightarrow> Inl FileNotFoundError
      | Some Dir \<Rightarrow> Inl IsADirectoryError
      | Some (File c) \<Rightarrow> Inr (AList.delete path t))"

text \<open>
  \<open>perform_ocr\<close> of the first script. For a PDF nothing is caught: an exception of
  \<open>tesseract\<close> leaves the function, and the page image stays behind. For an image a
  \<open>CalledProcessError\<close> gives the empty string.
\<close>

definition scan_perform_ocr :: "scan_env \<Rightarrow> pystr \<Rightarrow> world \<Rightarrow> (exn + pystr) \<times> world" where
  "scan_perform_ocr e file_path w =
     (if endswith (lower file_path) (str ''.pdf'') then
        (let root = fst (splitext file_path);
             image_file = root @ str ''.png'';
             w1 = run_pdftoppm e file_path root w
         in if isfile (tree w1) image_file then
              (case check_output_tesseract e image_file w1 of
                 (Inl x, w2) \<Rightarrow> (Inl x, w2)
               | (Inr ocr_text, w2) \<Rightarrow>
                   (case run_fs (Os_remove image_file) (os_remove image_file) w2 of
                      (Some x, w3) \<Rightarrow> (Inl x, w3)
                    | (None, w3) \<Rightarrow> (Inr (strip ocr_text), w3)))
            else (Inr (strip []), w1))
      else if endswith (lower file_path) (str ''.jpg'') \<or>
              endswith (lower file_path) (str ''.png'') then
        (case check_output_tesseract e file_path w of
           (Inl x, w1) \<Rightarrow> if x = CalledProcessError then (Inr [], w1) else (Inl x, w1)
         | (Inr ocr_text, w1) \<Rightarrow> (Inr (strip ocr_text), w1))
      else (Inr (strip []), w))"

text \<open>\<open>response_json['choices'][0]['message']['content']\<close>, as it is.\<close>

fun scan_first_content :: "response \<Rightarrow> exn + pystr" where
  "scan_first_content (Response None) = Inl KeyError"
| "scan_first_content (Response (Some [])) = Inl IndexError"
| "scan_first_content (Response (Some (Choice None # cs))) = Inl KeyError"
| "scan_first_content (Response (Some (Choice (Some (Message None)) # cs))) = Inl KeyError"
| "scan_first_content (Response (Some (Choice (Some (Message (Some s))) # cs))) = Inr s"

definition scan_url :: pystr where
  "scan_url = str ''http://localhost:1234/v1/chat/completions''"

definition scan_system_content :: pystr where
  "scan_system_content =
     str ''Generate a suitable filename for the following file content that briefly '' @
     str ''summarizes the content, using no more than 120 characters. Ensure your '' @
     str ''response is a valid JSON object containing '' @ [39] @ str ''filename'' @ [39] @
     str '' and '' @ [39] @ str ''justification'' @ [39] @
     str '' fields. Respond only with valid JSON. Do not write an introduction or summary.''"

text \<open>
  \<open>generate_filename\<close> of the first script: one \<open>requests.post\<close>, outside every \<open>try\<close>.
  The body is decoded before the status is looked at; only a decoding error and the failed
  assertion are caught. The result is \<open>None\<close> or the pair of file name and justification.
\<close>

definition scan_generate_filename ::
    "scan_env \<Rightarrow> pystr \<Rightarrow> world \<Rightarrow> (exn + (pystr \<times> pystr) option) \<times> world" where
  "scan_generate_filename e ocr_text w =
     (let user_content = str ''Here is the file content: '' @ ocr_text;
          w1 = w\<lparr>calls := calls w @ [Http_post scan_url scan_system_content user_content]\<rparr>
      in case scan_http_post e (length (filter is_http_call (calls w)))
                scan_url scan_system_content user_content of
           Http_raises \<Rightarrow> (Inl RequestException, w1)
         | Http_response status_code b \<Rightarrow>
             (case b of
                Not_json \<Rightarrow> (Inr None, w1)
              | Json response_json \<Rightarrow>
                  if status_code = 200 then
                    (case scan_first_content response_json of
                       Inl x \<Rightarrow> (Inl x, w1)
                     | Inr ai_response \<Rightarrow>
                         (case json_loads e ai_response of
                            Invalid_json \<Rightarrow> (Inr None, w1)
                          | Not_a_dict \<Rightarrow> (Inr None, w1)
                          | Dict name reason \<Rightarrow>
                              (let filename = strip (case name of None \<Rightarrow> [] | Some s \<Rightarrow> s);
                                   justification = (case reason of None \<Rightarrow> [] | Some s \<Rightarrow> s)
                               in (Inr (Some (filename, justification)), w1))))
                  else (Inr None, w1)))"

text \<open>
  The body of the loop \<open>for file_name in os.listdir(DIR)\<close> for one \<open>file_name\<close>.
  Nothing is caught there: an exception ends the script. Unpacking the result \<open>None\<close> of
  \<open>generate_filename\<close> is a \<open>TypeError\<close>.
\<close>

definition scan_process_file ::
    "scan_env \<Rightarrow> pystr \<Rightarrow> bool \<Rightarrow> pystr \<Rightarrow> world \<Rightarrow> exn option \<times> world" where
  "scan_process_file e DIR KEEP_ORIGINAL file_name w =
     (let DONE_DIR = join DIR (str ''done'');
          ORIG_DIR = join DIR (str ''orig'');
          file_path = join DIR file_name
      in if isfile (tree w) file_path \<and> endswith (lower file_path) (str ''.pdf'') then
           (case scan_perform_ocr e file_path w of
              (Inl x, w1) \<Rightarrow> (Some x, w1)
            | (Inr ocr_text, w1) \<Rightarrow>
                if strip ocr_text \<noteq> [] then
                  (case scan_generate_filename e ocr_text w1 of
                     (Inl x, w2) \<Rightarrow> (Some x, w2)
                   | (Inr None, w2) \<Rightarrow> (Some TypeError, w2)
                   | (Inr (Some (ai_generated_filename, justification)), w2) \<Rightarrow>
                       if ai_generated_filename \<noteq> [] then
                         (case scan_clean_filename ai_generated_filename of
                            None \<Rightarrow> (None, w2)
                          | Some cleaned_filename \<Rightarrow>
                              if cleaned_filename \<noteq> [] then
                                (let file_extension = snd (splitext file_name);
                                     new_filename = collision_loop (tree w2) DONE_DIR
                                                      (cleaned_filename @ file_extension) 1;
                                     new_filepath = join DONE_DIR new_filename
                                 in scan_relocate KEEP_ORIGINAL file_path new_filepath
                                      (join ORIG_DIR file_name) w2)
                              else (None, w2))
                       else (None, w2))
                else scan_relocate KEEP_ORIGINAL file_path (join DONE_DIR file_name)
                       (join ORIG_DIR file_name) w1)
         else (None, w))"

section \<open>The first script of \<open>scan.py\<close>: properties\<close>





















text \<open>An environment in which the page is rendered and \<open>tesseract\<close> finds no text on it
  (its output is a form feed), and a tree in which \<open>done\<close> already has a file with the
  name of the source.\<close>

definition env_blank_page :: scan_env where
  "env_blank_page =
     \<lparr>pdftoppm = (\<lambda>c. Some c),
      scan_tesseract = (\<lambda>l c. Tess True (Text [12])),
      scan_http_post = (\<lambda>n u s c. Http_raises),
      json_loads = (\<lambda>s. Invalid_json)\<rparr>"

definition same_name_world :: world where
  "same_name_world =
     \<lparr>tree = [(str ''d'', Dir), (str ''d/done'', Dir), (str ''d/orig'', Dir),
        (str ''d/done/scan7.pdf'', File [1]), (str ''d/scan7.pdf'', File [2])],
      workspace = [], calls = []\<rparr>"

lemmas scan_eval =
  scan_process_file_def scan_perform_ocr_def run_pdftoppm_def check_output_tesseract_def
  os_remove_def scan_generate_filename_def scan_relocate_def run_fs_def shutil_copy2_def
  shutil_move_def os_rename_def strip_def py_isspace_def Let_def path_eval

text \<open>
  When the text read from the page is empty, the file goes to \<open>done/\<close> under its own name
  and no test is made: a file of that name is replaced.
\<close>

lemma scan_empty_ocr_overwrites:
  "map_of (tree same_name_world) (str ''d/done/scan7.pdf'') = Some (File [1]) \<and>
   fst (scan_perform_ocr env_blank_page (str ''d/scan7.pdf'') same_name_world) = Inr [] \<and>
   map_of (tree (snd (scan_process_file env_blank_page (str ''d'') True (str ''scan7.pdf'')
      same_name_world))) (str ''d/done/scan7.pdf'') = Some (File [2])"
  by (simp add: env_blank_page_def same_name_world_def scan_eval)




section \<open>Text extraction\<close>

text \<open>The fields of \<open>FileProcessor\<close> that the methods read.\<close>

record processor =
  config :: config
  args :: args
  ai_rename_dir :: pystr

text \<open>One run of \<open>tesseract\<close> on a file of the temporary directory.\<close>

definition tesseract_on :: "env \<Rightarrow> processor \<Rightarrow> pystr \<Rightarrow> world \<Rightarrow> tess_result" where
  "tesseract_on e self name w =
     (case map_of (workspace w) name of
        None \<Rightarrow> Tess False (Text [])
      | Some img \<Rightarrow> tesseract e (LANGUAGE (config self)) img)"

text \<open>
  The \<open>try\<close> block around \<open>tesseract\<close>: \<open>Inr (Some text)\<close> is the recognised text,
  \<open>Inr None\<close> a caught \<open>CalledProcessError\<close>; after a \<open>UnicodeDecodeError\<close> the
  command runs again on raw bytes with \<open>check=True\<close>, and a non-zero exit then leaves
  the method.
\<close>

definition run_tesseract ::
    "env \<Rightarrow> processor \<Rightarrow> pystr \<Rightarrow> world \<Rightarrow> (exn + pystr option) \<times> world" where
  "run_tesseract e self name w =
     (let cmd = Tesseract (join (ai_rename_dir self) name);
          w1 = w\<lparr>calls := calls w @ [cmd]\<rparr>
      in case tesseract_on e self name w of
           Tess ok (Undecodable lossy) \<Rightarrow>
             (let w2 = w1\<lparr>calls := calls w1 @ [cmd]\<rparr>
              in if ok then (Inr (Some lossy), w2) else (Inl CalledProcessError, w2))
         | Tess ok (Text stdout) \<Rightarrow>
             if ok then (Inr (Some stdout), w1) else (Inr None, w1))"

text \<open>\<open>mogrify\<close> and the threshold conversion of one page image, both in the temporary
  directory.\<close>

definition preprocess_page :: "env \<Rightarrow> processor \<Rightarrow> pystr \<Rightarrow> pystr \<Rightarrow> world \<Rightarrow> world" where
  "preprocess_page e self image_file bw_name w =
     (let page_image = join (ai_rename_dir self) image_file;
          bw_image = join (ai_rename_dir self) bw_name;
          ws1 = (case map_of (workspace w) image_file of
                   None \<Rightarrow> workspace w
                 | Some c \<Rightarrow> AList.update image_file (enhance e c) (workspace w));
          ws2 = (case map_of ws1 image_file of
                   None \<Rightarrow> ws1
                 | Some c \<Rightarrow>
                     (case threshold e c of
                        None \<Rightarrow> ws1
                      | Some bw \<Rightarrow> AList.update bw_name bw ws1))
      in w\<lparr>workspace := ws2,
            calls := calls w @ [Mogrify page_image, Magick_threshold page_image bw_image]\<rparr>)"

fun ocr_pages ::
    "env \<Rightarrow> processor \<Rightarrow> pystr list \<Rightarrow> pystr \<Rightarrow> world \<Rightarrow> (exn + pystr) \<times> world" where
  "ocr_pages e self [] ocr_text w = (Inr ocr_text, w)"
| "ocr_pages e self (image_file # rest) ocr_text w =
     (let bw_name = image_file @ str ''_bw.png'';
          w1 = (if map_of (workspace w) bw_name = None
                then preprocess_page e self image_file bw_name w else w)
      in case run_tesseract e self bw_name w1 of
           (Inl x, w2) \<Rightarrow> (Inl x, w2)
         | (Inr None, w2) \<Rightarrow> ocr_pages e self rest ocr_text w2
         | (Inr (Some stdout), w2) \<Rightarrow> ocr_pages e self rest (ocr_text @ stdout @ [10, 10]) w2)"

text \<open>The names in the temporary directory that pass the test of \<open>perform_pdf_ocr\<close>.\<close>

definition cached_images :: "pystr \<Rightarrow> world \<Rightarrow> pystr list" where
  "cached_images prefix w =
     filter (\<lambda>f. startswith f prefix \<and> endswith f (str ''.png'')) (map fst (workspace w))"

text \<open>The rasterisation: page \<open>k\<close> is written as \<open>prefix-k.png\<close>.\<close>

definition magick_pdf :: "env \<Rightarrow> processor \<Rightarrow> pystr \<Rightarrow> pystr \<Rightarrow> world \<Rightarrow> world" where
  "magick_pdf e self file_path prefix w =
     (let pages = (case map_of (tree w) file_path of
                     Some (File c) \<Rightarrow> rasterize e c
                   | _ \<Rightarrow> []);
          named = map (\<lambda>(k, page). (prefix @ [45] @ dec k @ str ''.png'', page))
                    (enumerate 0 pages)
      in w\<lparr>workspace := foldl (\<lambda>ws (name, page). AList.update name page ws) (workspace w) named,
            calls := calls w @ [Magick_pdf file_path]\<rparr>)"

definition perform_pdf_ocr ::
    "env \<Rightarrow> processor \<Rightarrow> pystr \<Rightarrow> world \<Rightarrow> (exn + pystr) \<times> world" where
  "perform_pdf_ocr e self file_path w =
     (let base_name = fst (splitext file_path);
          prefix = basename base_name;
          w1 = (if cached_images prefix w = [] then magick_pdf e self file_path prefix w else w)
      in ocr_pages e self (sort (cached_images prefix w1)) [] w1)"

text \<open>For an image source \<open>mogrify\<close> rewrites the source file itself.\<close>

definition preprocess_image :: "env \<Rightarrow> processor \<Rightarrow> pystr \<Rightarrow> pystr \<Rightarrow> world \<Rightarrow> world" where
  "preprocess_image e self file_path bw_name w =
     (let bw_file_path = join (ai_rename_dir self) bw_name;
          t1 = (case map_of (tree w) file_path of
                  Some (File c) \<Rightarrow> AList.update file_path (File (enhance e c)) (tree w)
                | _ \<Rightarrow> tree w);
          ws1 = (case map_of t1 file_path of
                   Some (File c) \<Rightarrow>
                     (case threshold e c of
                        None \<Rightarrow> workspace w
                      | Some bw \<Rightarrow> AList.update bw_name bw (workspace w))
                 | _ \<Rightarrow> workspace w)
      in w\<lparr>tree := t1, workspace := ws1,
            calls := calls w @ [Mogrify file_path, Magick_threshold file_path bw_file_path]\<rparr>)"

definition perform_image_ocr ::
    "env \<Rightarrow> processor \<Rightarrow> pystr \<Rightarrow> world \<Rightarrow> (exn + pystr) \<times> world" where
  "perform_image_ocr e self file_path w =
     (let base_name = fst (splitext file_path);
          bw_name = basename base_name @ str ''_bw.png'';
          w1 = (if map_of (workspace w) bw_name = None
                then preprocess_image e self file_path bw_name w else w)
      in case run_tesseract e self bw_name w1 of
           (Inl x, w2) \<Rightarrow> (Inl x, w2)
         | (Inr None, w2) \<Rightarrow> (Inr [], w2)
         | (Inr (Some ocr_text), w2) \<Rightarrow> (Inr ocr_text, w2))"

definition perform_ocr ::
    "env \<Rightarrow> processor \<Rightarrow> pystr \<Rightarrow> world \<Rightarrow> (exn + pystr) \<times> world" where
  "perform_ocr e self file_path w =
     (let (r, w') =
            (if endswith (lower file_path) (str ''.pdf'') then perform_pdf_ocr e self file_path w
             else if endswith (lower file_path) (str ''.jpg'') \<or>
                     endswith (lower file_path) (str ''.png'')
             then perform_image_ocr e self file_path w
             else (Inr [], w))
      in case r of Inl x \<Rightarrow> (Inl x, w') | Inr ocr_text \<Rightarrow> (Inr (strip ocr_text), w'))"



section \<open>Text extraction: properties\<close>

fun is_magick_pdf :: "call \<Rightarrow> bool" where
  "is_magick_pdf (Magick_pdf p) = True"
| "is_magick_pdf c = False"

fun is_relocation :: "call \<Rightarrow> bool" where
  "is_relocation (Shutil_move s d) = True"
| "is_relocation (Shutil_copy2 s d) = True"
| "is_relocation (Os_rename s d) = True"
| "is_relocation c = False"

definition is_image_path :: "pystr \<Rightarrow> bool" where
  "is_image_path p \<longleftrightarrow>
     \<not> endswith (lower p) (str ''.pdf'') \<and>
     (endswith (lower p) (str ''.jpg'') \<or> endswith (lower p) (str ''.png''))"

text \<open>
  \<open>quiet w w'\<close>: between the two states no entry of the tree was created, removed or
  changed, except that a \<open>.jpg\<close> or \<open>.png\<close> file may have new content (the OCR stage runs
  \<open>mogrify\<close> on an image source in place), and no relocation call was made.
\<close>

definition quiet :: "world \<Rightarrow> world \<Rightarrow> bool" where
  "quiet w w' \<longleftrightarrow>
     (\<forall>p. map_of (tree w') p = map_of (tree w) p \<or>
          (is_image_path p \<and>
           (\<exists>c c'. map_of (tree w) p = Some (File c) \<and> map_of (tree w') p = Some (File c')))) \<and>
     filter is_relocation (calls w') = filter is_relocation (calls w)"

lemma quiet_refl: "quiet w w"
  by (simp add: quiet_def)

lemma quiet_trans: "quiet w w' \<Longrightarrow> quiet w' w'' \<Longrightarrow> quiet w w''"
  unfolding quiet_def
  apply (intro conjI allI)
   apply metis
  apply simp
  done

lemma quiet_same_tree:
  "tree w' = tree w \<Longrightarrow> filter is_relocation (calls w') = filter is_relocation (calls w) \<Longrightarrow>
   quiet w w'"
  by (simp add: quiet_def)

subsection \<open>Recognition\<close>

lemma run_tesseract_frame:
  "tree (snd (run_tesseract e self name w)) = tree w"
  "workspace (snd (run_tesseract e self name w)) = workspace w"
  by (auto simp: run_tesseract_def Let_def split: tess_result.splits tess_output.splits)

definition tesseract_runs :: "env \<Rightarrow> processor \<Rightarrow> pystr \<Rightarrow> world \<Rightarrow> nat" where
  "tesseract_runs e self name w =
     (case tesseract_on e self name w of Tess ok (Undecodable lossy) \<Rightarrow> 2 | _ \<Rightarrow> 1)"

lemma run_tesseract_calls:
  "calls (snd (run_tesseract e self name w)) =
     calls w @ replicate (tesseract_runs e self name w) (Tesseract (join (ai_rename_dir self) name))"
  by (auto simp: run_tesseract_def tesseract_runs_def Let_def numeral_2_eq_2
      split: tess_result.splits tess_output.splits)

lemma tesseract_on_cong:
  "workspace w = workspace w' \<Longrightarrow> tesseract_on e self name w = tesseract_on e self name w'"
  by (simp add: tesseract_on_def)

lemma run_tesseract_cong:
  "workspace w = workspace w' \<Longrightarrow>
   fst (run_tesseract e self name w) = fst (run_tesseract e self name w')"
  by (auto simp: run_tesseract_def Let_def tesseract_on_cong [of w w']
      split: tess_result.splits tess_output.splits)

lemma tesseract_runs_cong:
  "workspace w = workspace w' \<Longrightarrow> tesseract_runs e self name w = tesseract_runs e self name w'"
  by (simp add: tesseract_runs_def tesseract_on_cong [of w w'])

lemma filter_replicate_False: "\<not> P x \<Longrightarrow> filter P (replicate n x) = []"
  by (induction n) simp_all

lemma run_tesseract_quiet: "quiet w (snd (run_tesseract e self name w))"
  by (rule quiet_same_tree)
     (simp_all add: run_tesseract_frame run_tesseract_calls filter_replicate_False)

lemma run_tesseract_no_pdf:
  "filter is_magick_pdf (calls (snd (run_tesseract e self name w))) = filter is_magick_pdf (calls w)"
  by (simp add: run_tesseract_calls filter_replicate_False)

subsection \<open>Images\<close>

lemma preprocess_image_calls:
  "calls (preprocess_image e self p bw w) =
     calls w @ [Mogrify p, Magick_threshold p (join (ai_rename_dir self) bw)]"
  by (simp add: preprocess_image_def Let_def)

lemma perform_image_ocr_result:
  "perform_image_ocr e self p w =
     (let bw = basename (fst (splitext p)) @ str ''_bw.png'';
          w1 = (if map_of (workspace w) bw = None then preprocess_image e self p bw w else w)
      in (case fst (run_tesseract e self bw w1) of
            Inl x \<Rightarrow> Inl x | Inr None \<Rightarrow> Inr [] | Inr (Some t) \<Rightarrow> Inr t,
          snd (run_tesseract e self bw w1)))"
  by (simp add: perform_image_ocr_def Let_def split: prod.splits sum.splits option.splits)

lemma perform_image_ocr_first:
  "(let bw = basename (fst (splitext p)) @ str ''_bw.png'';
        w1 = snd (perform_image_ocr e self p w)
    in calls w1 =
         calls w @
         (if map_of (workspace w) bw = None
          then [Mogrify p, Magick_threshold p (join (ai_rename_dir self) bw)] else []) @
         replicate (tesseract_runs e self bw w1) (Tesseract (join (ai_rename_dir self) bw)))"
  by (simp add: perform_image_ocr_result Let_def run_tesseract_calls preprocess_image_calls
      run_tesseract_frame tesseract_runs_cong [of "snd (run_tesseract e self bw w)" w for bw w])

lemma perform_image_ocr_again:
  assumes "map_of (workspace (snd (perform_image_ocr e self p w)))
             (basename (fst (splitext p)) @ str ''_bw.png'') \<noteq> None"
  shows "(let bw = basename (fst (splitext p)) @ str ''_bw.png'';
              w1 = snd (perform_image_ocr e self p w);
              w2 = snd (perform_image_ocr e self p w1)
          in fst (perform_image_ocr e self p w1) = fst (perform_image_ocr e self p w) \<and>
             tree w2 = tree w1 \<and> workspace w2 = workspace w1 \<and>
             calls w2 = calls w1 @
               replicate (tesseract_runs e self bw w1) (Tesseract (join (ai_rename_dir self) bw)))"
proof -
  let ?bw = "basename (fst (splitext p)) @ str ''_bw.png''"
  let ?pre = "if map_of (workspace w) ?bw = None then preprocess_image e self p ?bw w else w"
  let ?w1 = "snd (perform_image_ocr e self p w)"
  have w1: "?w1 = snd (run_tesseract e self ?bw ?pre)"
    by (simp add: perform_image_ocr_result Let_def)
  then have ws: "workspace ?w1 = workspace ?pre" by (simp add: run_tesseract_frame)
  from assms have second: "perform_image_ocr e self p ?w1 =
      (case fst (run_tesseract e self ?bw ?w1) of
            Inl x \<Rightarrow> Inl x | Inr None \<Rightarrow> Inr [] | Inr (Some t) \<Rightarrow> Inr t,
          snd (run_tesseract e self ?bw ?w1))"
    by (subst perform_image_ocr_result) (auto simp: Let_def)
  have same: "fst (run_tesseract e self ?bw ?w1) = fst (run_tesseract e self ?bw ?pre)"
    by (rule run_tesseract_cong [OF ws])
  have first: "fst (perform_image_ocr e self p w) =
      (case fst (run_tesseract e self ?bw ?pre) of
            Inl x \<Rightarrow> Inl x | Inr None \<Rightarrow> Inr [] | Inr (Some t) \<Rightarrow> Inr t)"
    by (simp add: perform_image_ocr_result Let_def)
  show ?thesis
    unfolding Let_def
    by (simp add: second first same run_tesseract_frame run_tesseract_calls)
qed

subsection \<open>PDF pages\<close>

lemma preprocess_page_frame:
  "tree (preprocess_page e self f bw w) = tree w"
  "filter is_relocation (calls (preprocess_page e self f bw w)) = filter is_relocation (calls w)"
  "filter is_magick_pdf (calls (preprocess_page e self f bw w)) = filter is_magick_pdf (calls w)"
  by (simp_all add: preprocess_page_def Let_def)

lemma ocr_pages_frame:
  "tree (snd (ocr_pages e self fs acc w)) = tree w \<and>
   filter is_relocation (calls (snd (ocr_pages e self fs acc w))) =
     filter is_relocation (calls w) \<and>
   filter is_magick_pdf (calls (snd (ocr_pages e self fs acc w))) =
     filter is_magick_pdf (calls w)"
proof (induction fs arbitrary: acc w)
  case Nil
  show ?case by simp
next
  case (Cons f fs)
  let ?bw = "f @ str ''_bw.png''"
  let ?w1 = "if map_of (workspace w) ?bw = None then preprocess_page e self f ?bw w else w"
  let ?rt = "run_tesseract e self ?bw ?w1"
  have pre: "tree ?w1 = tree w"
    "filter is_relocation (calls ?w1) = filter is_relocation (calls w)"
    "filter is_magick_pdf (calls ?w1) = filter is_magick_pdf (calls w)"
    by (simp_all add: preprocess_page_frame)
  have rt: "tree (snd ?rt) = tree w"
    "filter is_relocation (calls (snd ?rt)) = filter is_relocation (calls w)"
    "filter is_magick_pdf (calls (snd ?rt)) = filter is_magick_pdf (calls w)"
    using pre
    by (simp_all add: run_tesseract_frame run_tesseract_calls filter_replicate_False)
  obtain r w2 where eq: "?rt = (r, w2)" by (cases ?rt)
  with rt have w2: "tree w2 = tree w"
    "filter is_relocation (calls w2) = filter is_relocation (calls w)"
    "filter is_magick_pdf (calls w2) = filter is_magick_pdf (calls w)"
    by simp_all
  show ?case
  proof (cases r)
    case (Inl x)
    with eq w2 show ?thesis by (simp add: Let_def)
  next
    case (Inr t)
    with eq w2 Cons.IH [of _ w2] show ?thesis
      by (cases t) (simp_all add: Let_def)
  qed
qed

lemma magick_pdf_frame:
  "tree (magick_pdf e self p prefix w) = tree w"
  "calls (magick_pdf e self p prefix w) = calls w @ [Magick_pdf p]"
  by (simp_all add: magick_pdf_def Let_def)

lemma perform_pdf_ocr_frame:
  "tree (snd (perform_pdf_ocr e self p w)) = tree w"
  "filter is_relocation (calls (snd (perform_pdf_ocr e self p w))) =
     filter is_relocation (calls w)"
  by (simp_all add: perform_pdf_ocr_def Let_def ocr_pages_frame magick_pdf_frame)

lemma perform_pdf_ocr_rasterize:
  "filter is_magick_pdf (calls (snd (perform_pdf_ocr e self p w))) =
     filter is_magick_pdf (calls w) @
     (if cached_images (basename (fst (splitext p))) w = [] then [Magick_pdf p] else [])"
  by (simp add: perform_pdf_ocr_def Let_def ocr_pages_frame magick_pdf_frame)

lemma preprocess_image_quiet:
  "is_image_path p \<Longrightarrow> quiet w (preprocess_image e self p bw w)"
  by (auto simp: quiet_def preprocess_image_def Let_def update_conv'
      split: option.splits node.splits)

lemma perform_image_ocr_quiet:
  assumes "is_image_path p"
  shows "quiet w (snd (perform_image_ocr e self p w))"
proof -
  let ?bw = "basename (fst (splitext p)) @ str ''_bw.png''"
  let ?pre = "if map_of (workspace w) ?bw = None then preprocess_image e self p ?bw w else w"
  have "quiet w ?pre" using assms by (simp add: preprocess_image_quiet quiet_refl)
  moreover have "quiet ?pre (snd (run_tesseract e self ?bw ?pre))"
    by (rule run_tesseract_quiet)
  ultimately show ?thesis
    unfolding perform_image_ocr_result Let_def snd_conv by (rule quiet_trans)
qed

lemma perform_ocr_snd:
  "snd (perform_ocr e self p w) =
     (if endswith (lower p) (str ''.pdf'') then snd (perform_pdf_ocr e self p w)
      else if endswith (lower p) (str ''.jpg'') \<or> endswith (lower p) (str ''.png'')
      then snd (perform_image_ocr e self p w)
      else w)"
  by (simp add: perform_ocr_def split: prod.splits sum.splits)

lemma perform_ocr_quiet: "quiet w (snd (perform_ocr e self p w))"
proof -
  consider (pdf) "endswith (lower p) (str ''.pdf'')" | (img) "is_image_path p"
    | (other) "\<not> endswith (lower p) (str ''.pdf'')" "\<not> endswith (lower p) (str ''.jpg'')"
        "\<not> endswith (lower p) (str ''.png'')"
    by (auto simp: is_image_path_def)
  then show ?thesis
  proof cases
    case pdf
    have "quiet w (snd (perform_pdf_ocr e self p w))"
      by (rule quiet_same_tree) (rule perform_pdf_ocr_frame)+
    with pdf show ?thesis by (simp add: perform_ocr_snd)
  next
    case img
    from perform_image_ocr_quiet [OF img, of w e self] img show ?thesis
      by (auto simp: perform_ocr_snd is_image_path_def)
  next
    case other
    then show ?thesis by (simp add: perform_ocr_snd quiet_refl)
  qed
qed

lemma update_keys: "fst ` set (AList.update k v al) = insert k (fst ` set al)"
  by (simp add: dom_update)

lemma cached_images_nonempty:
  "cached_images prefix w \<noteq> [] \<longleftrightarrow>
     (\<exists>f \<in> fst ` set (workspace w). startswith f prefix \<and> endswith f (str ''.png''))"
  by (auto simp: cached_images_def filter_empty_conv)

lemma preprocess_page_keys:
  "fst ` set (workspace w) \<subseteq> fst ` set (workspace (preprocess_page e self f bw w))"
  by (auto simp: preprocess_page_def Let_def update_keys split: option.splits)

lemma ocr_pages_keys:
  "fst ` set (workspace w) \<subseteq> fst ` set (workspace (snd (ocr_pages e self fs acc w)))"
proof (induction fs arbitrary: acc w)
  case Nil
  show ?case by simp
next
  case (Cons f fs)
  let ?bw = "f @ str ''_bw.png''"
  let ?w1 = "if map_of (workspace w) ?bw = None then preprocess_page e self f ?bw w else w"
  let ?rt = "run_tesseract e self ?bw ?w1"
  have 1: "fst ` set (workspace w) \<subseteq> fst ` set (workspace ?w1)"
    using preprocess_page_keys [of w e self f ?bw] by simp
  have 2: "workspace (snd ?rt) = workspace ?w1" by (rule run_tesseract_frame)
  obtain r w2 where eq: "?rt = (r, w2)" by (cases ?rt)
  with 1 2 have w2: "fst ` set (workspace w) \<subseteq> fst ` set (workspace w2)" by simp
  show ?case
  proof (cases r)
    case (Inl x)
    with eq w2 show ?thesis by (simp add: Let_def)
  next
    case (Inr t)
    show ?thesis
    proof (cases t)
      case None
      with Inr eq Cons.IH [of w2 acc] have
        "fst ` set (workspace w2) \<subseteq> fst ` set (workspace (snd (ocr_pages e self (f # fs) acc w)))"
        by (simp add: Let_def)
      with w2 show ?thesis by (rule subset_trans)
    next
      case (Some out)
      with Inr eq Cons.IH [of w2 "acc @ out @ [10, 10]"] have
        "fst ` set (workspace w2) \<subseteq> fst ` set (workspace (snd (ocr_pages e self (f # fs) acc w)))"
        by (simp add: Let_def)
      with w2 show ?thesis by (rule subset_trans)
    qed
  qed
qed

lemma foldl_update_keys:
  "fst ` set (foldl (\<lambda>ws (name, page). AList.update name page ws) ws0 named) =
     fst ` set ws0 \<union> fst ` set named"
proof (induction named arbitrary: ws0)
  case Nil
  show ?case by simp
next
  case (Cons a named)
  obtain n pg where a: "a = (n, pg)" by (cases a)
  show ?case by (simp add: a Cons.IH update_keys)
qed

lemma magick_pdf_cached:
  assumes "map_of (tree w) p = Some (File c)" "rasterize e c \<noteq> []"
  shows "cached_images prefix (magick_pdf e self p prefix w) \<noteq> []"
proof -
  let ?name = "prefix @ [45] @ dec 0 @ str ''.png''"
  from assms(2) obtain pg pgs where pages: "rasterize e c = pg # pgs"
    by (cases "rasterize e c") auto
  have "?name \<in> fst ` set (workspace (magick_pdf e self p prefix w))"
    using assms(1) pages by (simp add: magick_pdf_def Let_def foldl_update_keys update_keys)
  moreover have "startswith ?name prefix" by (simp add: startswith_def)
  moreover have "endswith ?name (str ''.png'')" by (simp add: endswith_def)
  ultimately show ?thesis unfolding cached_images_nonempty by blast
qed

lemma perform_pdf_ocr_cached:
  assumes "cached_images (basename (fst (splitext p))) w \<noteq> [] \<or>
           (\<exists>c. map_of (tree w) p = Some (File c) \<and> rasterize e c \<noteq> [])"
  shows "cached_images (basename (fst (splitext p))) (snd (perform_pdf_ocr e self p w)) \<noteq> []"
proof -
  let ?prefix = "basename (fst (splitext p))"
  let ?w1 = "if cached_images ?prefix w = [] then magick_pdf e self p ?prefix w else w"
  from assms have "cached_images ?prefix ?w1 \<noteq> []"
    by (auto simp: magick_pdf_cached)
  then obtain f where f: "f \<in> fst ` set (workspace ?w1)"
      "startswith f ?prefix" "endswith f (str ''.png'')"
    unfolding cached_images_nonempty by blast
  have eq: "snd (perform_pdf_ocr e self p w) =
      snd (ocr_pages e self (sort (cached_images ?prefix ?w1)) [] ?w1)"
    by (simp add: perform_pdf_ocr_def Let_def)
  have "fst ` set (workspace ?w1) \<subseteq> fst ` set (workspace (snd (perform_pdf_ocr e self p w)))"
    unfolding eq by (rule ocr_pages_keys)
  with f(1) have "f \<in> fst ` set (workspace (snd (perform_pdf_ocr e self p w)))"
    by (rule rev_subsetD)
  with f(2,3) show ?thesis unfolding cached_images_nonempty by blast
qed

lemma tesseract_runs_range: "tesseract_runs e self name w = 1 \<or> tesseract_runs e self name w = 2"
  by (simp add: tesseract_runs_def split: tess_result.splits tess_output.splits)

text \<open>
  Claim C7, amended. For a PDF source whose page images are in the temporary directory
  or whose rasterisation yields at least one page, the first invocation rasterises at
  most once (exactly once when nothing was cached) and the second invocation does not
  rasterise. For an image source, enhancement and binarisation run in the first
  invocation only when the binarised file is missing; when that file exists afterwards,
  the second invocation runs only the recognition tool (as often as the first did),
  changes neither the tree nor the temporary directory, and returns the same text.
\<close>

theorem ocr_cache_second_call:
  "(let prefix = basename (fst (splitext p));
        w1 = snd (perform_pdf_ocr e self p w);
        w2 = snd (perform_pdf_ocr e self p w1)
    in cached_images prefix w \<noteq> [] \<or>
       (\<exists>c. map_of (tree w) p = Some (File c) \<and> rasterize e c \<noteq> []) \<longrightarrow>
         filter is_magick_pdf (calls w1) =
           filter is_magick_pdf (calls w) @
           (if cached_images prefix w = [] then [Magick_pdf p] else []) \<and>
         filter is_magick_pdf (calls w2) = filter is_magick_pdf (calls w1)) \<and>
   (let bw = basename (fst (splitext q)) @ str ''_bw.png'';
        recognise = Tesseract (join (ai_rename_dir self) bw);
        w1 = snd (perform_image_ocr e self q w);
        w2 = snd (perform_image_ocr e self q w1);
        runs = tesseract_runs e self bw w1
    in (runs = 1 \<or> runs = 2) \<and>
       calls w1 =
         calls w @
         (if map_of (workspace w) bw = None
          then [Mogrify q, Magick_threshold q (join (ai_rename_dir self) bw)] else []) @
         replicate runs recognise \<and>
       (map_of (workspace w1) bw \<noteq> None \<longrightarrow>
          fst (perform_image_ocr e self q w1) = fst (perform_image_ocr e self q w) \<and>
          tree w2 = tree w1 \<and> workspace w2 = workspace w1 \<and>
          calls w2 = calls w1 @ replicate runs recognise))"
proof (intro conjI)
  show "let prefix = basename (fst (splitext p));
        w1 = snd (perform_pdf_ocr e self p w);
        w2 = snd (perform_pdf_ocr e self p w1)
    in cached_images prefix w \<noteq> [] \<or>
       (\<exists>c. map_of (tree w) p = Some (File c) \<and> rasterize e c \<noteq> []) \<longrightarrow>
         filter is_magick_pdf (calls w1) =
           filter is_magick_pdf (calls w) @
           (if cached_images prefix w = [] then [Magick_pdf p] else []) \<and>
         filter is_magick_pdf (calls w2) = filter is_magick_pdf (calls w1)"
    unfolding Let_def
  proof (intro impI conjI)
    show "filter is_magick_pdf (calls (snd (perform_pdf_ocr e self p w))) =
           filter is_magick_pdf (calls w) @
           (if cached_images (basename (fst (splitext p))) w = [] then [Magick_pdf p] else [])"
      by (rule perform_pdf_ocr_rasterize)
  next
    assume "cached_images (basename (fst (splitext p))) w \<noteq> [] \<or>
       (\<exists>c. map_of (tree w) p = Some (File c) \<and> rasterize e c \<noteq> [])"
    from perform_pdf_ocr_cached [OF this, of self]
    show "filter is_magick_pdf (calls (snd (perform_pdf_ocr e self p (snd (perform_pdf_ocr e self p w))))) =
          filter is_magick_pdf (calls (snd (perform_pdf_ocr e self p w)))"
      by (simp add: perform_pdf_ocr_rasterize)
  qed
next
  show "let bw = basename (fst (splitext q)) @ str ''_bw.png'';
        recognise = Tesseract (join (ai_rename_dir self) bw);
        w1 = snd (perform_image_ocr e self q w);
        w2 = snd (perform_image_ocr e self q w1);
        runs = tesseract_runs e self bw w1
    in (runs = 1 \<or> runs = 2) \<and>
       calls w1 =
         calls w @
         (if map_of (workspace w) bw = None
          then [Mogrify q, Magick_threshold q (join (ai_rename_dir self) bw)] else []) @
         replicate runs recognise \<and>
       (map_of (workspace w1) bw \<noteq> None \<longrightarrow>
          fst (perform_image_ocr e self q w1) = fst (perform_image_ocr e self q w) \<and>
          tree w2 = tree w1 \<and> workspace w2 = workspace w1 \<and>
          calls w2 = calls w1 @ replicate runs recognise)"
    using perform_image_ocr_first [of q e self w] perform_image_ocr_again [of e self q w]
      tesseract_runs_range [of e self "basename (fst (splitext q)) @ str ''_bw.png''"
        "snd (perform_image_ocr e self q w)"]
    unfolding Let_def by blast
qed

definition example_self :: processor where
  "example_self =
     \<lparr>config = example_config,
      args = \<lparr>arg_dry_run = False, arg_rename = True, arg_move = False, arg_copy = False,
               arg_summarize = True\<rparr>,
      ai_rename_dir = str ''/tmp/ai_rename_x''\<rparr>"

definition ocr_world :: world where
  "ocr_world =
     \<lparr>tree = [(str ''d'', Dir), (str ''d/scan.pdf'', File (str ''Hello'')),
              (str ''d/pic.png'', File (str ''World''))],
      workspace = [], calls = []\<rparr>"

definition env_one_page :: env where
  "env_one_page =
     \<lparr>rasterize = (\<lambda>c. [c]), enhance = (\<lambda>c. c), threshold = (\<lambda>c. Some c),
      tesseract = (\<lambda>l c. Tess True (Text c)),
      http_post = (\<lambda>n u s c. Http_response 400 Not_json),
      llm_completion = (\<lambda>n m p. Llm_raises APIConnectionError)\<rparr>"

lemmas ocr_eval =
  perform_image_ocr_def perform_pdf_ocr_def preprocess_image_def preprocess_page_def
  run_tesseract_def tesseract_on_def magick_pdf_def cached_images_def startswith_def
  env_one_page_def example_self_def example_config_def ocr_world_def Let_def path_eval

definition ocr_world_cached :: world where
  "ocr_world_cached = \<lparr>tree = [(str ''d'', Dir), (str ''d/scan.pdf'', File (str ''Hello'')), (str ''d/pic.png'', File (str ''World''))],
    workspace = [(str ''scan-0.png'', str ''Hello''), (str ''scan-0.png_bw.png'', str ''Hello'')],
    calls = [Magick_pdf (str ''d/scan.pdf''),
             Mogrify (str ''/tmp/ai_rename_x/scan-0.png''),
             Magick_threshold (str ''/tmp/ai_rename_x/scan-0.png'') (str ''/tmp/ai_rename_x/scan-0.png_bw.png''),
             Tesseract (str ''/tmp/ai_rename_x/scan-0.png_bw.png'')]\<rparr>"


text \<open>
  Claim C7, as stated, fails: the second invocation on an image source runs
  \<open>tesseract\<close> again, so it is not free of tool invocations. On a PDF source the second
  invocation also finds the binarised pages of the first one among the page images
  (their names start with the base name and end in \<open>.png\<close>), binarises and recognises
  them as further pages, and returns a longer text.
\<close>

theorem ocr_second_call_counterexample:
  "calls (snd (perform_image_ocr env_one_page example_self (str ''d/pic.png'')
          (snd (perform_image_ocr env_one_page example_self (str ''d/pic.png'') ocr_world)))) =
     calls (snd (perform_image_ocr env_one_page example_self (str ''d/pic.png'') ocr_world)) @
     [Tesseract (str ''/tmp/ai_rename_x/pic_bw.png'')] \<and>
   perform_pdf_ocr env_one_page example_self (str ''d/scan.pdf'') ocr_world = (Inr (str ''Hello'' @ [10, 10]), ocr_world_cached) \<and>
   fst (perform_pdf_ocr env_one_page example_self (str ''d/scan.pdf'') ocr_world_cached) =
     Inr (str ''Hello'' @ [10, 10] @ str ''Hello'' @ [10, 10]) \<and>
   calls (snd (perform_pdf_ocr env_one_page example_self (str ''d/scan.pdf'') ocr_world_cached)) =
     calls ocr_world_cached @
     [Tesseract (str ''/tmp/ai_rename_x/scan-0.png_bw.png''),
      Mogrify (str ''/tmp/ai_rename_x/scan-0.png_bw.png''),
      Magick_threshold (str ''/tmp/ai_rename_x/scan-0.png_bw.png'')
        (str ''/tmp/ai_rename_x/scan-0.png_bw.png_bw.png''),
      Tesseract (str ''/tmp/ai_rename_x/scan-0.png_bw.png_bw.png'')]"
proof -
  have 1: "perform_image_ocr env_one_page example_self (str ''d/pic.png'') ocr_world =
    (Inr (str ''World''),
     ocr_world\<lparr>workspace := [(str ''pic_bw.png'', str ''World'')],
        calls := [Mogrify (str ''d/pic.png''),
                  Magick_threshold (str ''d/pic.png'') (str ''/tmp/ai_rename_x/pic_bw.png''),
                  Tesseract (str ''/tmp/ai_rename_x/pic_bw.png'')]\<rparr>)"
    by (simp add: ocr_eval)
  have 2: "calls (snd (perform_image_ocr env_one_page example_self (str ''d/pic.png'')
          (snd (perform_image_ocr env_one_page example_self (str ''d/pic.png'') ocr_world)))) =
     calls (snd (perform_image_ocr env_one_page example_self (str ''d/pic.png'') ocr_world)) @
     [Tesseract (str ''/tmp/ai_rename_x/pic_bw.png'')]"
    by (simp add: 1) (simp add: ocr_eval)
  have 3: "perform_pdf_ocr env_one_page example_self (str ''d/scan.pdf'') ocr_world = (Inr (str ''Hello'' @ [10, 10]), ocr_world_cached)"
    by (simp add: ocr_world_cached_def) (simp add: ocr_eval)
  have 4: "fst (perform_pdf_ocr env_one_page example_self (str ''d/scan.pdf'') ocr_world_cached) =
      Inr (str ''Hello'' @ [10, 10] @ str ''Hello'' @ [10, 10])"
    by (simp add: ocr_world_cached_def ocr_eval)
  have 5: "calls (snd (perform_pdf_ocr env_one_page example_self (str ''d/scan.pdf'') ocr_world_cached)) =
     calls ocr_world_cached @
     [Tesseract (str ''/tmp/ai_rename_x/scan-0.png_bw.png''),
      Mogrify (str ''/tmp/ai_rename_x/scan-0.png_bw.png''),
      Magick_threshold (str ''/tmp/ai_rename_x/scan-0.png_bw.png'')
        (str ''/tmp/ai_rename_x/scan-0.png_bw.png_bw.png''),
      Tesseract (str ''/tmp/ai_rename_x/scan-0.png_bw.png_bw.png'')]"
    by (simp add: ocr_world_cached_def ocr_eval)
  from 2 3 4 5 show ?thesis by (intro conjI)
qed

theorem ocr_cache_second_call_witness:
  "map_of (tree ocr_world) (str ''d/scan.pdf'') = Some (File (str ''Hello'')) \<and>
   rasterize env_one_page (str ''Hello'') \<noteq> [] \<and>
   filter is_magick_pdf (calls (snd (perform_pdf_ocr env_one_page example_self (str ''d/scan.pdf'') ocr_world))) =
     [Magick_pdf (str ''d/scan.pdf'')] \<and>
   filter is_magick_pdf (calls (snd (perform_pdf_ocr env_one_page example_self (str ''d/scan.pdf'')
      (snd (perform_pdf_ocr env_one_page example_self (str ''d/scan.pdf'') ocr_world))))) =
     [Magick_pdf (str ''d/scan.pdf'')] \<and>
   map_of (workspace (snd (perform_image_ocr env_one_page example_self (str ''d/pic.png'') ocr_world)))
     (str ''pic_bw.png'') \<noteq> None \<and>
   fst (perform_image_ocr env_one_page example_self (str ''d/pic.png'')
     (snd (perform_image_ocr env_one_page example_self (str ''d/pic.png'') ocr_world))) =
     fst (perform_image_ocr env_one_page example_self (str ''d/pic.png'') ocr_world) \<and>
   fst (perform_image_ocr env_one_page example_self (str ''d/pic.png'') ocr_world) = Inr (str ''World'')"
proof -
  let ?scan = "str ''d/scan.pdf''" and ?pic = "str ''d/pic.png''"
  have a: "map_of (tree ocr_world) ?scan = Some (File (str ''Hello''))"
    by (simp add: ocr_world_def str_def)
  have b: "rasterize env_one_page (str ''Hello'') \<noteq> []" by (simp add: env_one_page_def)
  have c: "cached_images (basename (fst (splitext ?scan))) ocr_world = []"
    by (simp add: cached_images_def ocr_world_def)
  have d: "calls ocr_world = []" by (simp add: ocr_world_def)
  have bw: "basename (fst (splitext ?pic)) @ str ''_bw.png'' = str ''pic_bw.png''"
    by (simp add: path_eval)
  have 1: "perform_image_ocr env_one_page example_self ?pic ocr_world =
    (Inr (str ''World''),
     ocr_world\<lparr>workspace := [(str ''pic_bw.png'', str ''World'')],
        calls := [Mogrify (str ''d/pic.png''),
                  Magick_threshold (str ''d/pic.png'') (str ''/tmp/ai_rename_x/pic_bw.png''),
                  Tesseract (str ''/tmp/ai_rename_x/pic_bw.png'')]\<rparr>)"
    by (simp add: ocr_eval)
  have e: "map_of (workspace (snd (perform_image_ocr env_one_page example_self ?pic ocr_world)))
     (str ''pic_bw.png'') \<noteq> None"
    by (simp add: 1)
  from ocr_cache_second_call [where p = ?scan and q = ?pic and e = env_one_page and self = example_self
      and w = ocr_world] a b c d e
  show ?thesis
    by (simp add: Let_def bw) (simp add: 1)
qed


section \<open>The pipeline of \<open>ai-rename.py\<close>\<close>

text \<open>
  The methods of \<open>FileProcessor\<close> from \<open>rename_file\<close> up to \<open>process_files\<close>. A result
  \<open>Some x\<close> is an exception that leaves the method. \<open>done_dir\<close> and \<open>orig_dir\<close> are
  \<open>None\<close> when \<open>setup_directories\<close> returned \<open>None\<close> for them.
\<close>

definition rename_file ::
    "env \<Rightarrow> processor \<Rightarrow> pystr \<Rightarrow> pystr \<Rightarrow> pystr option \<Rightarrow> pystr option \<Rightarrow> pystr \<Rightarrow> world
      \<Rightarrow> exn option \<times> world" where
  "rename_file e self file_path file_name done_dir orig_dir ocr_text w =
     (case generate_filename e (config self) ocr_text w of
        (Inl x, w1) \<Rightarrow> (Some x, w1)
      | (Inr ai_generated_filename, w1) \<Rightarrow>
          if ai_generated_filename = [] then (None, w1)
          else
            (let cleaned_filename = clean_filename ai_generated_filename
             in if cleaned_filename = [] then (None, w1)
                else
                  (let file_extension = snd (splitext file_name);
                       new_filename = cleaned_filename @ file_extension
                   in case done_dir of
                        None \<Rightarrow> (Some TypeError, w1)
                      | Some d \<Rightarrow>
                          (case move_or_copy_file (args self) file_path (join d new_filename)
                                  orig_dir file_name w1 of
                             (Some x, w2) \<Rightarrow> if is_OSError x then (None, w2) else (Some x, w2)
                           | (None, w2) \<Rightarrow> (None, w2)))))"

definition process_pdf ::
    "env \<Rightarrow> processor \<Rightarrow> pystr \<Rightarrow> pystr \<Rightarrow> pystr option \<Rightarrow> pystr option \<Rightarrow> world
      \<Rightarrow> exn option \<times> world" where
  "process_pdf e self file_path file_name done_dir orig_dir w =
     (case perform_ocr e self file_path w of
        (Inl x, w1) \<Rightarrow> (Some x, w1)
      | (Inr ocr_text, w1) \<Rightarrow>
          if ocr_text = [] then (None, w1)
          else if arg_rename (args self)
          then rename_file e self file_path file_name done_dir orig_dir ocr_text w1
          else (None, w1))"

definition process_image ::
    "env \<Rightarrow> processor \<Rightarrow> pystr \<Rightarrow> pystr \<Rightarrow> pystr option \<Rightarrow> pystr option \<Rightarrow> world
      \<Rightarrow> exn option \<times> world" where
  "process_image e self file_path file_name done_dir orig_dir w =
     (case perform_ocr e self file_path w of
        (Inl x, w1) \<Rightarrow> (Some x, w1)
      | (Inr ocr_text, w1) \<Rightarrow>
          if ocr_text = [] then (None, w1)
          else if arg_rename (args self)
          then rename_file e self file_path file_name done_dir orig_dir ocr_text w1
          else (None, w1))"

text \<open>The summary is written into the temporary directory of the run.\<close>

definition save_summary :: "processor \<Rightarrow> pystr \<Rightarrow> pystr \<Rightarrow> pystr \<Rightarrow> world \<Rightarrow> world" where
  "save_summary self file_path file_name summary w =
     (let summary_filename = fst (splitext file_name) @ str ''_summary.txt''
      in w\<lparr>workspace := AList.update summary_filename summary (workspace w)\<rparr>)"

definition generate_summary :: "env \<Rightarrow> processor \<Rightarrow> pystr \<Rightarrow> pystr \<Rightarrow> world \<Rightarrow> world" where
  "generate_summary e self file_path file_name w =
     (case perform_ocr e self file_path w of
        (Inl x, w1) \<Rightarrow> w1
      | (Inr ocr_text, w1) \<Rightarrow>
          (case prompt_summarization (config self) of
             None \<Rightarrow> w1
           | Some p \<Rightarrow>
               (case call_llm e (config self) (p @ str '':'' @ ocr_text) w1 of
                  (Inl x, w2) \<Rightarrow> w2
                | (Inr summary, w2) \<Rightarrow>
                    if summary \<noteq> [] then save_summary self file_path file_name summary w2
                    else w2)))"

text \<open>\<open>process_file\<close> logs every exception of \<open>process_func\<close> and of the summary and goes
  on.\<close>

definition process_file ::
    "env \<Rightarrow> processor \<Rightarrow> pystr \<Rightarrow> pystr
      \<Rightarrow> (pystr \<Rightarrow> pystr \<Rightarrow> pystr option \<Rightarrow> pystr option \<Rightarrow> world \<Rightarrow> exn option \<times> world)
      \<Rightarrow> pystr option \<times> pystr option \<Rightarrow> world \<Rightarrow> world" where
  "process_file e self file_path file_name process_func dirs w =
     (let w1 = snd (process_func file_path file_name (fst dirs) (snd dirs) w)
      in if arg_summarize (args self) then generate_summary e self file_path file_name w1
         else w1)"

definition extension_to_function ::
    "env \<Rightarrow> processor \<Rightarrow> pystr
      \<Rightarrow> (pystr \<Rightarrow> pystr \<Rightarrow> pystr option \<Rightarrow> pystr option \<Rightarrow> world \<Rightarrow> exn option \<times> world) option"
    where
  "extension_to_function e self ext =
     (if ext = str ''.pdf'' then Some (process_pdf e self)
      else if ext = str ''.jpg'' then Some (process_image e self)
      else if ext = str ''.png'' then Some (process_image e self)
      else None)"

definition process_single_file ::
    "env \<Rightarrow> processor \<Rightarrow> pystr \<Rightarrow> pystr \<Rightarrow> pystr option \<times> pystr option \<Rightarrow> world \<Rightarrow> world" where
  "process_single_file e self dir_path file_name dirs w =
     (if (fst dirs = None \<or> snd dirs = None) \<and> (arg_rename (args self) \<or> arg_move (args self))
      then w
      else
        (let file_path = join dir_path file_name;
             file_extension = lower (snd (splitext file_name))
         in case extension_to_function e self file_extension of
              None \<Rightarrow> w
            | Some process_func \<Rightarrow>
                if isfile (tree w) file_path
                then process_file e self file_path file_name process_func dirs w
                else w))"

text \<open>\<open>create_directory\<close> ends the run with \<open>sys.exit(1)\<close> when \<open>os.makedirs\<close> fails.\<close>

definition create_directory :: "pystr \<Rightarrow> world \<Rightarrow> exn option \<times> world" where
  "create_directory dir_path w =
     (case run_fs (Os_makedirs dir_path) (os_makedirs dir_path) w of
        (Some x, w1) \<Rightarrow> (Some SystemExit, w1)
      | (None, w1) \<Rightarrow> (None, w1))"

definition setup_directories ::
    "processor \<Rightarrow> pystr \<Rightarrow> world \<Rightarrow> (exn + pystr option \<times> pystr option) \<times> world" where
  "setup_directories self base_dir w =
     (let done_dir = join base_dir (str ''done'');
          orig_dir = join base_dir
                       (case ORIG_SUBDIR (config self) of None \<Rightarrow> str ''orig'' | Some s \<Rightarrow> s)
      in if arg_rename (args self) \<or> arg_move (args self) then
           (case create_directory done_dir w of
              (Some x, w1) \<Rightarrow> (Inl x, w1)
            | (None, w1) \<Rightarrow>
                (case create_directory orig_dir w1 of
                   (Some x, w2) \<Rightarrow> (Inl x, w2)
                 | (None, w2) \<Rightarrow> (Inr (Some done_dir, Some orig_dir), w2)))
         else (Inr (None, None), w))"



section \<open>The pipeline: properties\<close>






lemma generate_filename_frame:
  "tree (snd (generate_filename e cfg t w)) = tree w"
  "workspace (snd (generate_filename e cfg t w)) = workspace w"
  "filter is_relocation (calls (snd (generate_filename e cfg t w))) =
     filter is_relocation (calls w)"
  by (simp_all add: generate_filename_def Let_def split: option.split)



lemma generate_filename_quiet: "quiet w (snd (generate_filename e cfg t w))"
  by (rule quiet_same_tree) (rule generate_filename_frame)+


lemma rename_file_snd:
  "snd (rename_file e self fp fn dd od t w) =
     (let g = generate_filename e (config self) t w
      in case fst g of
           Inl x \<Rightarrow> snd g
         | Inr n \<Rightarrow>
             if n = [] \<or> clean_filename n = [] then snd g
             else
               (case dd of
                  None \<Rightarrow> snd g
                | Some d \<Rightarrow>
                    snd (move_or_copy_file (args self) fp
                           (join d (clean_filename n @ snd (splitext fn))) od fn (snd g))))"
  by (simp add: rename_file_def Let_def split: prod.split sum.split option.split)

lemma move_or_copy_file_dry:
  "arg_dry_run a \<Longrightarrow> move_or_copy_file a fp np od fn w = (None, w)"
  by (simp add: move_or_copy_file_def)

lemma rename_file_quiet:
  assumes "arg_dry_run (args self) \<or>
     (case fst (generate_filename e (config self) t w) of
        Inl x \<Rightarrow> True
      | Inr n \<Rightarrow> n = [] \<or> clean_filename n = [])"
  shows "quiet w (snd (rename_file e self fp fn dd od t w))"
proof -
  have "snd (rename_file e self fp fn dd od t w) = snd (generate_filename e (config self) t w)"
    using assms
    by (auto simp: rename_file_snd Let_def move_or_copy_file_dry split: sum.split option.split)
  then show ?thesis by (simp add: generate_filename_quiet)
qed

text \<open>The pipeline for one file ends before \<open>move_or_copy_file\<close>: the OCR stage raises or
  returns no text, or the naming call raises, returns nothing, or returns a name that the
  validator rejects.\<close>

definition stops_before_relocation :: "env \<Rightarrow> processor \<Rightarrow> pystr \<Rightarrow> world \<Rightarrow> bool" where
  "stops_before_relocation e self file_path w \<longleftrightarrow>
     (case perform_ocr e self file_path w of
        (Inl x, w1) \<Rightarrow> True
      | (Inr ocr_text, w1) \<Rightarrow>
          ocr_text = [] \<or>
          (case fst (generate_filename e (config self) ocr_text w1) of
             Inl x \<Rightarrow> True
           | Inr name \<Rightarrow> name = [] \<or> clean_filename name = []))"

lemma process_pdf_quiet:
  assumes "arg_dry_run (args self) \<or> \<not> arg_rename (args self) \<or>
           stops_before_relocation e self fp w"
  shows "quiet w (snd (process_pdf e self fp fn dd od w))"
proof -
  obtain r w1 where o: "perform_ocr e self fp w = (r, w1)"
    by (cases "perform_ocr e self fp w")
  with perform_ocr_quiet [of w e self fp] have q: "quiet w w1" by simp
  show ?thesis
  proof (cases r)
    case (Inl x)
    with o q show ?thesis by (simp add: process_pdf_def)
  next
    case (Inr t)
    show ?thesis
    proof (cases "t = [] \<or> \<not> arg_rename (args self)")
      case True
      with o q Inr show ?thesis by (auto simp: process_pdf_def)
    next
      case False
      with assms o Inr have "arg_dry_run (args self) \<or>
         (case fst (generate_filename e (config self) t w1) of
            Inl x \<Rightarrow> True
          | Inr n \<Rightarrow> n = [] \<or> clean_filename n = [])"
        by (auto simp: stops_before_relocation_def)
      from rename_file_quiet [OF this] have "quiet w1 (snd (rename_file e self fp fn dd od t w1))" .
      with q have "quiet w (snd (rename_file e self fp fn dd od t w1))" by (rule quiet_trans)
      with o Inr False show ?thesis by (simp add: process_pdf_def)
    qed
  qed
qed

lemma process_image_eq: "process_image = process_pdf"
  by (intro ext) (simp add: process_image_def process_pdf_def)






subsection \<open>Directories\<close>







subsection \<open>Claims\<close>

text \<open>An environment whose \<open>mogrify\<close> changes the image and whose naming service answers
  with status 400, a processor in dry-run mode with \<open>rename\<close> set, and a directory with
  one image.\<close>

definition env_sharpen :: env where
  "env_sharpen =
     \<lparr>rasterize = (\<lambda>c. [c]), enhance = (\<lambda>c. c @ str ''!''), threshold = (\<lambda>c. Some c),
      tesseract = (\<lambda>l c. Tess True (Text c)),
      http_post = (\<lambda>n u s c. Http_response 400 Not_json),
      llm_completion = (\<lambda>n m p. Llm_raises APIConnectionError)\<rparr>"



lemmas pipeline_eval =
  process_single_file_def extension_to_function_def process_file_def process_image_def
  process_pdf_def perform_ocr_def rename_file_def generate_filename_def reply_filename_def
  setup_directories_def create_directory_def run_fs_def os_makedirs_def ancestors.simps
  perform_image_ocr_def preprocess_image_def run_tesseract_def tesseract_on_def
  strip_def py_isspace_def Let_def path_eval

definition pic_world_ready :: world where
  "pic_world_ready =
     \<lparr>tree = [(str ''d'', Dir), (str ''d/pic.png'', File (str ''World'')),
              (str ''d/done'', Dir), (str ''d/orig'', Dir)],
      workspace = [],
      calls = [Os_makedirs (str ''d/done''), Os_makedirs (str ''d/orig'')]\<rparr>"

text \<open>
  Claim C6, as stated, fails in the first script of \<open>scan.py\<close>: when the OCR text is
  empty, the file is copied into \<open>done/\<close> under its own name and the original is moved
  into \<open>orig/\<close>.
\<close>

theorem scan_empty_ocr_relocates:
  "map_of (tree report_world) (str ''d/scan7.pdf'') = Some (File [2]) \<and>
   map_of (tree report_world) (str ''d/done/scan7.pdf'') = None \<and>
   map_of (tree report_world) (str ''d/orig/scan7.pdf'') = None \<and>
   fst (scan_perform_ocr env_blank_page (str ''d/scan7.pdf'') report_world) = Inr [] \<and>
   map_of (tree (snd (scan_process_file env_blank_page (str ''d'') True (str ''scan7.pdf'')
      report_world))) (str ''d/scan7.pdf'') = None \<and>
   map_of (tree (snd (scan_process_file env_blank_page (str ''d'') True (str ''scan7.pdf'')
      report_world))) (str ''d/done/scan7.pdf'') = Some (File [2]) \<and>
   map_of (tree (snd (scan_process_file env_blank_page (str ''d'') True (str ''scan7.pdf'')
      report_world))) (str ''d/orig/scan7.pdf'') = Some (File [2]) \<and>
   calls (snd (scan_process_file env_blank_page (str ''d'') True (str ''scan7.pdf'')
      report_world)) =
     [Pdftoppm (str ''d/scan7.pdf'') (str ''d/scan7''), Tesseract (str ''d/scan7.png''),
      Os_remove (str ''d/scan7.png''),
      Shutil_copy2 (str ''d/scan7.pdf'') (str ''d/done/scan7.pdf''),
      Shutil_move (str ''d/scan7.pdf'') (str ''d/orig/scan7.pdf'')]"
  by (simp add: env_blank_page_def report_world_def report_tree_def scan_eval)

lemma reply_filename_failed:
  "reply = Http_raises \<or> (\<exists>s b. reply = Http_response s b \<and> 400 \<le> s \<and> s < 600) \<Longrightarrow>
   reply_filename reply = Inr []"
  by (auto simp: reply_filename_def)

text \<open>
  Claim C6, amended, for \<open>process_pdf\<close> and \<open>process_image\<close> of \<open>ai-rename.py\<close>: when the
  OCR stage returns the empty string (or raises), or the naming request fails (no
  connection or timeout, a status from 400 to 599), or the proposal is absent or raises,
  or the validator rejects it, then no relocation call is made and every entry of the
  tree stays as it was: nothing is created, removed or moved; only the content of an
  image source may have been rewritten by \<open>mogrify\<close>.
\<close>

theorem failed_pipeline_no_relocation:
  assumes "perform_ocr e self file_path w = (ocr, w1)"
    and "generate_filename e (config self) ocr_text w1 = (proposal, w2)"
    and "ocr = Inr [] \<or> (\<exists>x. ocr = Inl x) \<or>
         (ocr = Inr ocr_text \<and>
          (proposal = Inr [] \<or> (\<exists>x. proposal = Inl x) \<or>
           (\<exists>name. proposal = Inr name \<and> clean_filename name = []) \<or>
           (\<exists>filename_prompt.
              prompt_filename_generation (config self) = Some filename_prompt \<and>
              (let reply = http_post e (length (filter is_http_call (calls w1)))
                             (case API_BASE (config self) of
                                None \<Rightarrow> str ''https://api-inference.huggingface.co/models/gpt2''
                              | Some b \<Rightarrow> b)
                             filename_prompt (str ''Here is the file content: '' @ ocr_text)
               in reply = Http_raises \<or>
                  (\<exists>status_code b. reply = Http_response status_code b \<and>
                     400 \<le> status_code \<and> status_code < 600)))))"
  shows "quiet w (snd (process_pdf e self file_path file_name done_dir orig_dir w)) \<and>
         quiet w (snd (process_image e self file_path file_name done_dir orig_dir w))"
proof -
  have "stops_before_relocation e self file_path w"
  proof (cases "ocr = Inr ocr_text \<and> ocr_text \<noteq> []")
    case False
    with assms(1,3) show ?thesis by (auto simp: stops_before_relocation_def)
  next
    case True
    with assms(3) consider
      (a) "proposal = Inr [] \<or> (\<exists>x. proposal = Inl x) \<or>
           (\<exists>name. proposal = Inr name \<and> clean_filename name = [])"
      | (b) filename_prompt where
        "prompt_filename_generation (config self) = Some filename_prompt"
        "reply_filename (http_post e (length (filter is_http_call (calls w1)))
                             (case API_BASE (config self) of
                                None \<Rightarrow> str ''https://api-inference.huggingface.co/models/gpt2''
                              | Some b \<Rightarrow> b)
                             filename_prompt (str ''Here is the file content: '' @ ocr_text)) = Inr []"
      by (auto simp: Let_def reply_filename_failed)
    then have "case proposal of Inl x \<Rightarrow> True | Inr name \<Rightarrow> name = [] \<or> clean_filename name = []"
    proof cases
      case a
      then show ?thesis by auto
    next
      case b
      with assms(2) have "proposal = Inr []"
        by (auto simp: generate_filename_def Let_def split: option.splits)
      then show ?thesis by simp
    qed
    with True assms(1,2) show ?thesis by (simp add: stops_before_relocation_def)
  qed
  then show ?thesis by (simp add: process_pdf_quiet process_image_eq)
qed

theorem failed_pipeline_no_relocation_witness:
  "perform_ocr env_sharpen example_self (str ''d/pic.png'') pic_world_ready =
     (Inr (str ''World!''),
      pic_world_ready\<lparr>tree := [(str ''d'', Dir), (str ''d/pic.png'', File (str ''World!'')),
              (str ''d/done'', Dir), (str ''d/orig'', Dir)],
         workspace := [(str ''pic_bw.png'', str ''World!'')],
         calls := calls pic_world_ready @
           [Mogrify (str ''d/pic.png''),
            Magick_threshold (str ''d/pic.png'') (str ''/tmp/ai_rename_x/pic_bw.png''),
            Tesseract (str ''/tmp/ai_rename_x/pic_bw.png'')]\<rparr>) \<and>
   fst (generate_filename env_sharpen (config example_self) (str ''World!'')
     (snd (perform_ocr env_sharpen example_self (str ''d/pic.png'') pic_world_ready))) = Inr [] \<and>
   quiet pic_world_ready
     (snd (process_image env_sharpen example_self (str ''d/pic.png'') (str ''pic.png'')
        (Some (str ''d/done'')) (Some (str ''d/orig'')) pic_world_ready)) \<and>
   filter is_relocation (calls (snd (process_image env_sharpen example_self (str ''d/pic.png'')
     (str ''pic.png'') (Some (str ''d/done'')) (Some (str ''d/orig'')) pic_world_ready))) = []"
proof -
  let ?pic = "str ''d/pic.png''"
  let ?w1 = "pic_world_ready\<lparr>tree := [(str ''d'', Dir), (str ''d/pic.png'', File (str ''World!'')),
              (str ''d/done'', Dir), (str ''d/orig'', Dir)],
         workspace := [(str ''pic_bw.png'', str ''World!'')],
         calls := calls pic_world_ready @
           [Mogrify (str ''d/pic.png''),
            Magick_threshold (str ''d/pic.png'') (str ''/tmp/ai_rename_x/pic_bw.png''),
            Tesseract (str ''/tmp/ai_rename_x/pic_bw.png'')]\<rparr>"
  have o: "perform_ocr env_sharpen example_self ?pic pic_world_ready = (Inr (str ''World!''), ?w1)"
    by (simp add: example_self_def pic_world_ready_def example_config_def env_sharpen_def
        pipeline_eval)
  obtain g w2 where g: "generate_filename env_sharpen (config example_self) (str ''World!'') ?w1 = (g, w2)"
    by (cases "generate_filename env_sharpen (config example_self) (str ''World!'') ?w1")
  have "fst (generate_filename env_sharpen (config example_self) (str ''World!'') ?w1) = Inr []"
    by (simp add: generate_filename_def reply_filename_def example_self_def example_config_def
        env_sharpen_def Let_def)
  with g have g0: "g = Inr []" by simp
  from failed_pipeline_no_relocation [OF o g, of "str ''pic.png''" "Some (str ''d/done'')"
      "Some (str ''d/orig'')"] g0
  have q: "quiet pic_world_ready
     (snd (process_image env_sharpen example_self ?pic (str ''pic.png'')
        (Some (str ''d/done'')) (Some (str ''d/orig'')) pic_world_ready))"
    by simp
  have c: "filter is_relocation (calls pic_world_ready) = []"
    by (simp add: pic_world_ready_def)
  from q c o g g0 show ?thesis by (simp add: quiet_def)
qed









end
